theory Spec2Isabelle
  imports Main "HOL-Library.Char_ord" "HOL-Library.List_Lexorder"
begin

section \<open>Python strings\<close>

text \<open>
  A Python \<open>str\<close> is modelled as a \<open>string\<close>: the sequence of its UTF-8 bytes.
  Comparing byte sequences lexicographically agrees with Python's comparison by code
  point, and testing a prefix or a suffix that is itself well-formed UTF-8 agrees with
  \<open>str.startswith\<close> and \<open>str.endswith\<close>. The character classes used by
  \<open>str.strip\<close> and \<open>str.isdigit\<close> are the ASCII ones.
\<close>

definition startswith :: "string \<Rightarrow> string \<Rightarrow> bool" where
  "startswith s p = (take (length p) s = p)"

definition endswith :: "string \<Rightarrow> string \<Rightarrow> bool" where
  "endswith s p = (length p \<le> length s \<and> drop (length s - length p) s = p)"

text \<open>\<open>s.replace(old, new)\<close>: every non-overlapping occurrence, leftmost first.\<close>

function replace :: "string \<Rightarrow> string \<Rightarrow> string \<Rightarrow> string" where
  "replace s old new =
     (if old = [] then new @ concat (map (\<lambda>c. c # new) s)
      else if s = [] then []
      else if startswith s old then new @ replace (drop (length old) s) old new
      else hd s # replace (tl s) old new)"
  by pat_completeness auto
termination
  by (relation "measure (\<lambda>(s, old, new). length s)") auto

declare replace.simps [simp del]






text \<open>\<open>str(n)\<close> on an integer.\<close>

fun str_nat :: "nat \<Rightarrow> string" where
  "str_nat n = (if n < 10 then [char_of (48 + n)] else str_nat (n div 10) @ [char_of (48 + n mod 10)])"

declare str_nat.simps [simp del]

definition str_int :: "int \<Rightarrow> string" where
  "str_int i = (if i < 0 then CHR ''-'' # str_nat (nat (- i)) else str_nat (nat i))"

text \<open>\<open>sep.join(xs)\<close>.\<close>

fun str_join :: "string \<Rightarrow> string list \<Rightarrow> string" where
  "str_join sep [] = []"
| "str_join sep [x] = x"
| "str_join sep (x # y # ys) = x @ sep @ str_join sep (y # ys)"

section \<open>Paths\<close>

text \<open>\<open>os.path.join(a, b)\<close> of \<open>posixpath\<close>.\<close>

definition os_path_join :: "string \<Rightarrow> string \<Rightarrow> string" where
  "os_path_join a b =
     (if startswith b ''/'' then b
      else if a = [] \<or> endswith a ''/'' then a @ b
      else a @ ''/'' @ b)"

text \<open>\<open>s.split('/')\<close>.\<close>

fun split_sep :: "string \<Rightarrow> string list" where
  "split_sep [] = [[]]"
| "split_sep (c # cs) =
     (if c = CHR ''/'' then [] # split_sep cs
      else (case split_sep cs of [] \<Rightarrow> [[c]] | w # ws \<Rightarrow> (c # w) # ws))"

text \<open>\<open>os.path.basename(p)\<close>: what follows the last separator.\<close>

definition os_path_basename :: "string \<Rightarrow> string" where
  "os_path_basename p = last (split_sep p)"

section \<open>Exceptions\<close>

text \<open>
  The exceptions that the scripts raise or that the calls they make can raise. Each is a
  subclass of Python's \<open>Exception\<close> and carries the text that \<open>str(e)\<close> gives;
  \<open>CalledProcessError\<close> carries the return code and the captured standard error.
  Both scripts catch \<open>CalledProcessError\<close> wherever it is raised, so its text is never
  printed; the text given for it here leaves out the command. An interrupt from the
  keyboard, which is not an \<open>Exception\<close> and can arrive at any moment, is outside the
  model.
\<close>

datatype exn =
    FileNotFoundError string
  | NotADirectoryError string
  | IsADirectoryError string
  | FileExistsError string
  | PermissionError string
  | CalledProcessError int string
  | BadGzipFile string
  | EOFError string
  | ValueError string
  | OtherException string

fun exn_str :: "exn \<Rightarrow> string" where
  "exn_str (FileNotFoundError m) = m"
| "exn_str (NotADirectoryError m) = m"
| "exn_str (IsADirectoryError m) = m"
| "exn_str (FileExistsError m) = m"
| "exn_str (PermissionError m) = m"
| "exn_str (CalledProcessError rc err) = ''Command returned non-zero exit status '' @ str_int rc @ ''.''"
| "exn_str (BadGzipFile m) = m"
| "exn_str (EOFError m) = m"
| "exn_str (ValueError m) = m"
| "exn_str (OtherException m) = m"

datatype errno = ENOENT | ENOTDIR | EEXIST | EISDIR

fun oserror :: "errno \<Rightarrow> string \<Rightarrow> exn" where
  "oserror ENOENT p = FileNotFoundError (''[Errno 2] No such file or directory: '' @ [CHR 0x27] @ p @ [CHR 0x27])"
| "oserror ENOTDIR p = NotADirectoryError (''[Errno 20] Not a directory: '' @ [CHR 0x27] @ p @ [CHR 0x27])"
| "oserror EEXIST p = FileExistsError (''[Errno 17] File exists: '' @ [CHR 0x27] @ p @ [CHR 0x27])"
| "oserror EISDIR p = IsADirectoryError (''[Errno 21] Is a directory: '' @ [CHR 0x27] @ p @ [CHR 0x27])"

section \<open>The file system\<close>

text \<open>
  The file system the scripts run against: every file and directory below the root,
  keyed by its list of path components, in the order in which \<open>os.listdir\<close> reports
  them. The root is a directory and is the working directory of the process. There are
  no symbolic links and no permissions.
\<close>

datatype node = File string | Dir

type_synonym filesystem = "(string list \<times> node) list"

definition fs_lookup :: "filesystem \<Rightarrow> string list \<Rightarrow> node option" where
  "fs_lookup F k = (if k = [] then Some Dir else map_of F k)"

text \<open>Following a path one component at a time from the directory \<open>cur\<close>.\<close>

fun walk :: "filesystem \<Rightarrow> string list \<Rightarrow> string list \<Rightarrow> errno + string list" where
  "walk F cur [] = Inr cur"
| "walk F cur (c # cs) =
     (if fs_lookup F cur \<noteq> Some Dir then Inl ENOTDIR
      else if c = [] \<or> c = ''.'' then walk F cur cs
      else if c = ''..'' then walk F (butlast cur) cs
      else (case fs_lookup F (cur @ [c]) of
              None \<Rightarrow> Inl ENOENT
            | Some n \<Rightarrow> walk F (cur @ [c]) cs))"

definition resolve :: "filesystem \<Rightarrow> string \<Rightarrow> errno + string list" where
  "resolve F p = (if p = [] then Inl ENOENT else walk F [] (split_sep p))"

definition os_path_exists :: "filesystem \<Rightarrow> string \<Rightarrow> bool" where
  "os_path_exists F p = (case resolve F p of Inl e \<Rightarrow> False | Inr k \<Rightarrow> True)"

definition os_path_isdir :: "filesystem \<Rightarrow> string \<Rightarrow> bool" where
  "os_path_isdir F p = (case resolve F p of Inl e \<Rightarrow> False | Inr k \<Rightarrow> fs_lookup F k = Some Dir)"

definition os_listdir :: "filesystem \<Rightarrow> string \<Rightarrow> exn + string list" where
  "os_listdir F p =
     (case resolve F p of
        Inl e \<Rightarrow> Inl (oserror e p)
      | Inr k \<Rightarrow>
          (if fs_lookup F k = Some Dir
           then Inr (map (\<lambda>e. last (fst e)) (filter (\<lambda>e. fst e \<noteq> [] \<and> butlast (fst e) = k) F))
           else Inl (oserror ENOTDIR p)))"

text \<open>\<open>os.makedirs(p, exist_ok=True)\<close>: every missing directory on the way is created.\<close>

fun mk :: "filesystem \<Rightarrow> string list \<Rightarrow> string list \<Rightarrow> errno + filesystem" where
  "mk F cur [] = (if fs_lookup F cur = Some Dir then Inr F else Inl EEXIST)"
| "mk F cur (c # cs) =
     (if fs_lookup F cur \<noteq> Some Dir then Inl ENOTDIR
      else if c = [] \<or> c = ''.'' then mk F cur cs
      else if c = ''..'' then mk F (butlast cur) cs
      else (case fs_lookup F (cur @ [c]) of
              None \<Rightarrow> mk (F @ [(cur @ [c], Dir)]) (cur @ [c]) cs
            | Some n \<Rightarrow> mk F (cur @ [c]) cs))"

definition os_makedirs :: "filesystem \<Rightarrow> string \<Rightarrow> exn + filesystem" where
  "os_makedirs F p =
     (if p = [] then Inl (oserror ENOENT p)
      else (case mk F [] (split_sep p) of Inl e \<Rightarrow> Inl (oserror e p) | Inr F' \<Rightarrow> Inr F'))"

text \<open>Opening a file for reading gives its bytes.\<close>

definition read_file :: "filesystem \<Rightarrow> string \<Rightarrow> exn + string" where
  "read_file F p =
     (case resolve F p of
        Inl e \<Rightarrow> Inl (oserror e p)
      | Inr k \<Rightarrow>
          (case fs_lookup F k of
             Some (File d) \<Rightarrow> Inr d
           | Some Dir \<Rightarrow> Inl (oserror EISDIR p)
           | None \<Rightarrow> Inl (oserror ENOENT p)))"

fun fs_update :: "string list \<Rightarrow> node \<Rightarrow> filesystem \<Rightarrow> filesystem" where
  "fs_update k v [] = [(k, v)]"
| "fs_update k v (e # es) = (if fst e = k then (k, v) # es else e # fs_update k v es)"

text \<open>\<open>open(p, 'wb')\<close> followed by writing \<open>d\<close>: the file is created or replaced.\<close>

definition write_file :: "filesystem \<Rightarrow> string \<Rightarrow> string \<Rightarrow> exn + filesystem" where
  "write_file F p d =
     (if p = [] then Inl (oserror ENOENT p)
      else (case walk F [] (butlast (split_sep p)) of
              Inl e \<Rightarrow> Inl (oserror e p)
            | Inr k \<Rightarrow>
                (let name = last (split_sep p) in
                 if fs_lookup F k \<noteq> Some Dir then Inl (oserror ENOTDIR p)
                 else if name = [] \<or> name = ''.'' \<or> name = ''..'' then Inl (oserror EISDIR p)
                 else (case fs_lookup F (k @ [name]) of
                         Some Dir \<Rightarrow> Inl (oserror EISDIR p)
                       | _ \<Rightarrow> Inr (fs_update (k @ [name]) (File d) F)))))"

section \<open>The world of a run\<close>

text \<open>
  What a run reads and changes: the file system, the lines sent to the logger, the
  subprocesses started (each with its argument vector and the file system it was started
  in), the files opened (path and mode), the lines waiting on standard input and the
  text printed to standard output.
\<close>

datatype level = INFO | WARNING | ERROR

record world =
  fs :: filesystem
  log :: "(level \<times> string) list"
  spawned :: "(string list \<times> filesystem) list"
  opened :: "(string \<times> string) list"
  stdin :: "string list"
  printed :: "string list"

definition logger :: "level \<Rightarrow> string \<Rightarrow> world \<Rightarrow> world" where
  "logger l m w = w\<lparr>log := log w @ [(l, m)]\<rparr>"

text \<open>
  What lies outside the scripts: the external program, which given the number of
  subprocesses started before it, its argument vector and the file system either cannot be
  started or exits with a return code, captured output and captured standard error, and
  leaves a file system behind; and gzip decompression, which gives the bytes produced and
  the error, if any, that stopped it.
\<close>

datatype proc_result = Completed int string string | Raised exn

record env =
  tool :: "nat \<Rightarrow> string list \<Rightarrow> filesystem \<Rightarrow> proc_result \<times> filesystem"
  gunzip :: "string \<Rightarrow> string \<times> exn option"

text \<open>\<open>subprocess.run(cmd, capture_output=True, check=True)\<close>.\<close>

definition subprocess_run :: "env \<Rightarrow> string list \<Rightarrow> world \<Rightarrow> (exn + int \<times> string \<times> string) \<times> world" where
  "subprocess_run E cmd w =
     (let (r, F') = tool E (length (spawned w)) cmd (fs w);
          w' = w\<lparr>fs := F', spawned := spawned w @ [(cmd, fs w)]\<rparr>
      in case r of
           Raised e \<Rightarrow> (Inl e, w')
         | Completed rc out err \<Rightarrow>
             (if rc = 0 then (Inr (rc, out, err), w') else (Inl (CalledProcessError rc err), w')))"

section \<open>The Snippy driver\<close>

record snippy =
  base_path :: string
  output_base_dir :: string
  ref_genome_path :: string
  cpu_cores :: int
  strains :: "string list"

definition supported_strains :: "string list" where
  "supported_strains =
     [''Acinetobacterbaumannii'', ''Pseudomonasaeruginosa'', ''Staphylococcusaureus'',
      ''Klebsiellapneumoniae'']"

text \<open>\<open>SnippyAnalysis.__init__\<close>: the fields, and the output directory is created.\<close>

definition snippy_init :: "string \<Rightarrow> string \<Rightarrow> string \<Rightarrow> int \<Rightarrow> world \<Rightarrow> (exn + snippy) \<times> world" where
  "snippy_init bp out rf cpu w =
     (case os_makedirs (fs w) out of
        Inl e \<Rightarrow> (Inl e, w)
      | Inr F' \<Rightarrow>
          (Inr \<lparr>base_path = bp, output_base_dir = out, ref_genome_path = rf, cpu_cores = cpu,
                strains = supported_strains\<rparr>,
           w\<lparr>fs := F'\<rparr>))"

text \<open>The inner loop of \<open>SnippyAnalysis.get_samples\<close>, over the entries of one strain directory.\<close>

fun snippy_scan_items ::
  "string \<Rightarrow> string \<Rightarrow> string list \<Rightarrow> (string \<times> string) list \<Rightarrow> world \<Rightarrow> (string \<times> string) list \<times> world" where
  "snippy_scan_items strain strain_path [] samples w = (samples, w)"
| "snippy_scan_items strain strain_path (item # items) samples w =
     (let item_path = os_path_join strain_path item in
      if os_path_isdir (fs w) item_path \<and> startswith item ''MCR_CVU_''
      then snippy_scan_items strain strain_path items (samples @ [(strain, item)])
             (logger INFO (''Found sample: '' @ strain @ ''/'' @ item) w)
      else snippy_scan_items strain strain_path items samples w)"

text \<open>The outer loop of \<open>SnippyAnalysis.get_samples\<close>, over the strains.\<close>

fun snippy_scan_strains ::
  "snippy \<Rightarrow> string list \<Rightarrow> (string \<times> string) list \<Rightarrow> world \<Rightarrow> (exn + (string \<times> string) list) \<times> world" where
  "snippy_scan_strains self [] samples w = (Inr samples, w)"
| "snippy_scan_strains self (strain # rest) samples w =
     (let strain_path = os_path_join (base_path self) strain in
      if \<not> os_path_exists (fs w) strain_path
      then snippy_scan_strains self rest samples
             (logger WARNING (''Strain path does not exist: '' @ strain_path) w)
      else (case os_listdir (fs w) strain_path of
              Inl e \<Rightarrow> (Inl e, w)
            | Inr items \<Rightarrow>
                (let (samples', w') = snippy_scan_items strain strain_path items samples w
                 in snippy_scan_strains self rest samples' w')))"

definition snippy_get_samples :: "snippy \<Rightarrow> world \<Rightarrow> (exn + (string \<times> string) list) \<times> world" where
  "snippy_get_samples self w =
     (if \<not> os_path_exists (fs w) (base_path self)
      then (Inr [], logger ERROR (''Base path does not exist: '' @ base_path self) w)
      else (case snippy_scan_strains self (strains self) [] w of
              (Inl e, w') \<Rightarrow> (Inl e, w')
            | (Inr samples, w') \<Rightarrow>
                (Inr samples,
                 logger INFO (''Total samples found: '' @ str_nat (length samples)) w')))"

definition get_fastq_files :: "snippy \<Rightarrow> string \<Rightarrow> string \<Rightarrow> world \<Rightarrow> (exn + string \<times> string) \<times> world" where
  "get_fastq_files self strain sample w =
     (let sample_path =
            os_path_join (os_path_join (os_path_join (base_path self) strain) sample) ''ILLUMINA_DATA''
      in if \<not> os_path_exists (fs w) sample_path
         then (Inl (FileNotFoundError (''Sample path does not exist: '' @ sample_path)), w)
         else (case os_listdir (fs w) sample_path of
                 Inl e \<Rightarrow> (Inl e, w)
               | Inr files \<Rightarrow>
                   (let R1_files = sort (map (os_path_join sample_path)
                                      (filter (\<lambda>f. endswith f ''R1_trimmed.fastq'') files));
                        R2_files = sort (map (os_path_join sample_path)
                                      (filter (\<lambda>f. \<not> endswith f ''R1_trimmed.fastq''
                                                    \<and> endswith f ''R2_trimmed.fastq'') files))
                    in if R1_files = [] \<or> R2_files = []
                       then (Inl (FileNotFoundError
                                    (''No matching FASTQ files found for: '' @ strain @ ''/'' @ sample)), w)
                       else (Inr (hd R1_files, hd R2_files),
                             logger INFO (''  R2: '' @ os_path_basename (hd R2_files))
                               (logger INFO (''  R1: '' @ os_path_basename (hd R1_files))
                                 (logger INFO (''Found FASTQ files for: '' @ strain @ ''/'' @ sample) w))))))"

definition snippy_output_dir :: "snippy \<Rightarrow> string \<Rightarrow> string \<Rightarrow> string" where
  "snippy_output_dir self strain sample =
     os_path_join (os_path_join (output_base_dir self) strain) (sample @ ''_mysnps'')"

definition snippy_cmd :: "snippy \<Rightarrow> string \<Rightarrow> string \<Rightarrow> string \<Rightarrow> string list" where
  "snippy_cmd self output_dir R1_file R2_file =
     [''snippy'', ''--cpu'', str_int (cpu_cores self), ''--outdir'', output_dir,
      ''--ref'', ref_genome_path self, ''--R1'', R1_file, ''--R2'', R2_file]"

definition run_snippy ::
  "env \<Rightarrow> snippy \<Rightarrow> string \<Rightarrow> string \<Rightarrow> string \<Rightarrow> string \<Rightarrow> world \<Rightarrow> (exn + bool) \<times> world" where
  "run_snippy E self strain sample R1_file R2_file w =
     (let output_dir = snippy_output_dir self strain sample in
      case os_makedirs (fs w) output_dir of
        Inl e \<Rightarrow> (Inl e, w)
      | Inr F' \<Rightarrow>
          (let cmd = snippy_cmd self output_dir R1_file R2_file;
               w1 = logger INFO (''Command: '' @ str_join '' '' cmd)
                      (logger INFO (''Starting Snippy analysis: '' @ strain @ ''/'' @ sample)
                        (w\<lparr>fs := F'\<rparr>))
           in case subprocess_run E cmd w1 of
                (Inr r, w2) \<Rightarrow>
                  (Inr True,
                   logger INFO (''Output directory: '' @ output_dir)
                     (logger INFO (''Snippy completed successfully: '' @ strain @ ''/'' @ sample) w2))
              | (Inl (CalledProcessError rc err), w2) \<Rightarrow>
                  (Inr False,
                   logger ERROR (''Error message: '' @ err)
                     (logger ERROR (''Return code: '' @ str_int rc)
                       (logger ERROR (''Snippy failed for: '' @ strain @ ''/'' @ sample) w2)))
              | (Inl (FileNotFoundError m), w2) \<Rightarrow>
                  (Inr False,
                   logger ERROR ''Snippy command not found. Please ensure Snippy is properly installed'' w2)
              | (Inl e, w2) \<Rightarrow> (Inl e, w2)))"

definition snippy_validate_inputs :: "env \<Rightarrow> snippy \<Rightarrow> world \<Rightarrow> (exn + bool) \<times> world" where
  "snippy_validate_inputs E self w =
     (if \<not> os_path_exists (fs w) (base_path self)
      then (Inr False, logger ERROR (''Base path does not exist: '' @ base_path self) w)
      else if \<not> os_path_exists (fs w) (ref_genome_path self)
      then (Inr False,
            logger ERROR (''Reference genome file does not exist: '' @ ref_genome_path self) w)
      else (case subprocess_run E [''snippy'', ''--version''] w of
              (Inr r, w1) \<Rightarrow> (Inr True, logger INFO ''Snippy tool validation successful'' w1)
            | (Inl (CalledProcessError rc err), w1) \<Rightarrow>
                (Inr False, logger ERROR ''Snippy command not found or version check failed'' w1)
            | (Inl (FileNotFoundError m), w1) \<Rightarrow>
                (Inr False, logger ERROR ''Snippy command not found or version check failed'' w1)
            | (Inl e, w1) \<Rightarrow> (Inl e, w1)))"

text \<open>
  One turn of the per-sample loop of \<open>SnippyAnalysis.run_analysis\<close>: the pair of
  counters is \<open>(success_count, failed_count)\<close>.
\<close>

definition snippy_process_sample ::
  "env \<Rightarrow> snippy \<Rightarrow> string \<times> string \<Rightarrow> nat \<times> nat \<Rightarrow> world \<Rightarrow> (nat \<times> nat) \<times> world" where
  "snippy_process_sample E self s c w =
     (let strain = fst s; sample = snd s;
          failed = (\<lambda>e w'. ((fst c, snd c + 1),
                      logger ERROR (''Failed to process sample '' @ strain @ ''/'' @ sample @ '': '' @ exn_str e) w'))
      in case get_fastq_files self strain sample w of
           (Inl e, w1) \<Rightarrow> failed e w1
         | (Inr (R1_file, R2_file), w1) \<Rightarrow>
             (case run_snippy E self strain sample R1_file R2_file w1 of
                (Inl e, w2) \<Rightarrow> failed e w2
              | (Inr True, w2) \<Rightarrow> ((fst c + 1, snd c), w2)
              | (Inr False, w2) \<Rightarrow> ((fst c, snd c + 1), w2)))"

fun snippy_process_samples ::
  "env \<Rightarrow> snippy \<Rightarrow> (string \<times> string) list \<Rightarrow> nat \<times> nat \<Rightarrow> world \<Rightarrow> (nat \<times> nat) \<times> world" where
  "snippy_process_samples E self [] c w = (c, w)"
| "snippy_process_samples E self (s # rest) c w =
     (let (c', w') = snippy_process_sample E self s c w
      in snippy_process_samples E self rest c' w')"

text \<open>
  The summary that a run ends with: the samples discovered and the two counters. A run
  that stops before the loop has none.
\<close>

record snippy_summary =
  samples_of :: "(string \<times> string) list"
  success_count :: nat
  failed_count :: nat

definition hrule :: string where
  "hrule = replicate 60 (CHR ''='')"

definition snippy_log_summary :: "snippy \<Rightarrow> nat \<Rightarrow> nat \<times> nat \<Rightarrow> world \<Rightarrow> world" where
  "snippy_log_summary self n c w =
     logger INFO hrule
       (logger INFO (''Results saved in: '' @ output_base_dir self)
         (logger INFO (''Total samples: '' @ str_nat n @ '' samples'')
           (logger INFO (''Failed samples: '' @ str_nat (snd c) @ '' samples'')
             (logger INFO (''Successfully processed: '' @ str_nat (fst c) @ '' samples'')
               (logger INFO ''Analysis completed!''
                 (logger INFO hrule w))))))"

definition run_analysis :: "env \<Rightarrow> snippy \<Rightarrow> world \<Rightarrow> (exn + snippy_summary option) \<times> world" where
  "run_analysis E self w0 =
     (let w = logger INFO ''Starting SNP analysis workflow'' w0 in
      case snippy_validate_inputs E self w of
        (Inl e, w1) \<Rightarrow> (Inl e, w1)
      | (Inr False, w1) \<Rightarrow> (Inr None, logger ERROR ''Input validation failed, exiting analysis'' w1)
      | (Inr True, w1) \<Rightarrow>
          (case snippy_get_samples self w1 of
             (Inl e, w2) \<Rightarrow> (Inl e, w2)
           | (Inr samples, w2) \<Rightarrow>
               (if samples = []
                then (Inr None, logger ERROR ''No samples found, exiting analysis'' w2)
                else (let (c, w3) = snippy_process_samples E self samples (0, 0) w2 in
                      (Inr (Some \<lparr>samples_of = samples, success_count = fst c, failed_count = snd c\<rparr>),
                       snippy_log_summary self (length samples) c w3)))))"

section \<open>The SPAdes driver\<close>

record spades =
  base_input_dir :: string
  base_output_dir :: string
  spades_cpu_cores :: int

text \<open>\<open>SpadesAnalysis.__init__\<close>: the fields, and the output directory is created.\<close>

definition spades_init :: "string \<Rightarrow> string \<Rightarrow> int \<Rightarrow> world \<Rightarrow> (exn + spades) \<times> world" where
  "spades_init inp out cpu w =
     (case os_makedirs (fs w) out of
        Inl e \<Rightarrow> (Inl e, w)
      | Inr F' \<Rightarrow>
          (Inr \<lparr>base_input_dir = inp, base_output_dir = out, spades_cpu_cores = cpu\<rparr>, w\<lparr>fs := F'\<rparr>))"

text \<open>The loop of \<open>SpadesAnalysis.get_samples\<close> over the forward-read files of one directory.\<close>

fun spades_scan_r1 :: "string \<Rightarrow> string \<Rightarrow> string list \<Rightarrow> string list \<Rightarrow> world \<Rightarrow> string list \<times> world" where
  "spades_scan_r1 directory input_dir [] samples w = (samples, w)"
| "spades_scan_r1 directory input_dir (r1_file # rest) samples w =
     (let r2_file = replace r1_file ''_R1_trimmed.fastq.gz'' ''_R2_trimmed.fastq.gz'';
          r2_path = os_path_join input_dir r2_file
      in if os_path_exists (fs w) r2_path
         then (let sample_name = replace r1_file ''_R1_trimmed.fastq.gz'' [];
                   sample_path = os_path_join (os_path_join directory ''ILLUMINA_DATA'') sample_name
               in spades_scan_r1 directory input_dir rest (samples @ [sample_path])
                    (logger INFO (''Found sample: '' @ sample_path) w))
         else spades_scan_r1 directory input_dir rest samples
                (logger WARNING (''Missing R2 file for '' @ r1_file @ '': '' @ r2_path) w))"

text \<open>The loop of \<open>SpadesAnalysis.get_samples\<close> over the directories of the input directory.\<close>

fun spades_scan_dirs :: "spades \<Rightarrow> string list \<Rightarrow> string list \<Rightarrow> world \<Rightarrow> (exn + string list) \<times> world" where
  "spades_scan_dirs self [] samples w = (Inr samples, w)"
| "spades_scan_dirs self (directory # rest) samples w =
     (let input_dir = os_path_join (os_path_join (base_input_dir self) directory) ''ILLUMINA_DATA'' in
      if \<not> os_path_exists (fs w) input_dir
      then spades_scan_dirs self rest samples
             (logger WARNING (''ILLUMINA_DATA directory not found: '' @ input_dir) w)
      else (case os_listdir (fs w) input_dir of
              Inl e \<Rightarrow> (Inl e, w)
            | Inr files \<Rightarrow>
                (let r1_files = filter (\<lambda>f. endswith f ''R1_trimmed.fastq.gz'') files;
                     (samples', w') = spades_scan_r1 directory input_dir r1_files samples w
                 in spades_scan_dirs self rest samples' w')))"

definition spades_get_samples :: "spades \<Rightarrow> world \<Rightarrow> (exn + string list) \<times> world" where
  "spades_get_samples self w =
     (if \<not> os_path_exists (fs w) (base_input_dir self)
      then (Inr [], logger ERROR (''Base input directory does not exist: '' @ base_input_dir self) w)
      else (case os_listdir (fs w) (base_input_dir self) of
              Inl e \<Rightarrow> (Inl e, w)
            | Inr entries \<Rightarrow>
                (let directories =
                       filter (\<lambda>d. os_path_isdir (fs w) (os_path_join (base_input_dir self) d)) entries
                 in case spades_scan_dirs self directories [] w of
                      (Inl e, w') \<Rightarrow> (Inl e, w')
                    | (Inr samples, w') \<Rightarrow>
                        (Inr samples,
                         logger INFO (''Total samples found: '' @ str_nat (length samples)) w'))))"

text \<open>
  One of the two decompression blocks of \<open>SpadesAnalysis.decompress_fastq\<close>: the
  compressed file is opened for reading, the target for writing, and the decompressed
  bytes are copied until the end or an error.
\<close>

definition decompress_one :: "env \<Rightarrow> string \<Rightarrow> string \<Rightarrow> string \<Rightarrow> world \<Rightarrow> (exn + unit) \<times> world" where
  "decompress_one E label gz out w =
     (let failed = (\<lambda>e w'. (Inl e, logger ERROR (''Failed to decompress '' @ gz @ '': '' @ exn_str e) w')) in
      if os_path_exists (fs w) gz
      then (let w1 = w\<lparr>opened := opened w @ [(gz, ''rb'')]\<rparr> in
            case read_file (fs w1) gz of
              Inl e \<Rightarrow> failed e w1
            | Inr d \<Rightarrow>
                (let w2 = w1\<lparr>opened := opened w1 @ [(out, ''wb'')]\<rparr> in
                 case write_file (fs w2) out (fst (gunzip E d)) of
                   Inl e \<Rightarrow> failed e w2
                 | Inr F' \<Rightarrow>
                     (case snd (gunzip E d) of
                        Some e \<Rightarrow> failed e (w2\<lparr>fs := F'\<rparr>)
                      | None \<Rightarrow>
                          (Inr (),
                           logger INFO (''Decompressed '' @ label @ '': '' @ os_path_basename gz)
                             (w2\<lparr>fs := F'\<rparr>)))))
      else (Inl (FileNotFoundError (label @ '' file not found: '' @ gz)), w))"

definition decompress_fastq :: "env \<Rightarrow> spades \<Rightarrow> string \<Rightarrow> world \<Rightarrow> (exn + string \<times> string) \<times> world" where
  "decompress_fastq E self sample_path w0 =
     (let r1_gz = os_path_join (base_input_dir self) (sample_path @ ''_R1_trimmed.fastq.gz'');
          r2_gz = os_path_join (base_input_dir self) (sample_path @ ''_R2_trimmed.fastq.gz'');
          r1_fastq = os_path_join (base_input_dir self) (sample_path @ ''_R1_trimmed.fastq'');
          r2_fastq = os_path_join (base_input_dir self) (sample_path @ ''_R2_trimmed.fastq'');
          w = logger INFO (''Decompressing FASTQ files for: '' @ sample_path) w0
      in if os_path_exists (fs w) r1_fastq \<and> os_path_exists (fs w) r2_fastq
         then (Inr (r1_fastq, r2_fastq),
               logger INFO (''FASTQ files already decompressed: '' @ sample_path) w)
         else (case decompress_one E ''R1'' r1_gz r1_fastq w of
                 (Inl e, w1) \<Rightarrow> (Inl e, w1)
               | (Inr u, w1) \<Rightarrow>
                   (case decompress_one E ''R2'' r2_gz r2_fastq w1 of
                      (Inl e, w2) \<Rightarrow> (Inl e, w2)
                    | (Inr u', w2) \<Rightarrow> (Inr (r1_fastq, r2_fastq), w2))))"

definition spades_assembly_dir :: "spades \<Rightarrow> string \<Rightarrow> string" where
  "spades_assembly_dir self sample_path =
     os_path_join (base_output_dir self) (os_path_basename sample_path @ ''_assembly'')"

definition spades_cmd :: "spades \<Rightarrow> string \<Rightarrow> string \<Rightarrow> string \<Rightarrow> string list" where
  "spades_cmd self assembly_dir r1_file r2_file =
     [''spades.py'', ''--threads'', str_int (spades_cpu_cores self), ''-o'', assembly_dir,
      ''-1'', r1_file, ''-2'', r2_file]"

definition run_spades :: "env \<Rightarrow> spades \<Rightarrow> string \<Rightarrow> string \<Rightarrow> string \<Rightarrow> world \<Rightarrow> (exn + bool) \<times> world" where
  "run_spades E self sample_path r1_file r2_file w =
     (let assembly_dir = spades_assembly_dir self sample_path;
          cmd = spades_cmd self assembly_dir r1_file r2_file;
          w1 = logger INFO (''Output directory: '' @ assembly_dir)
                 (logger INFO (''Command: '' @ str_join '' '' cmd)
                   (logger INFO (''Starting SPAdes assembly: '' @ sample_path) w))
      in case subprocess_run E cmd w1 of
           (Inr r, w2) \<Rightarrow>
             (let w3 = logger INFO (''SPAdes assembly completed successfully: '' @ sample_path) w2;
                  contigs_file = os_path_join assembly_dir ''contigs.fasta''
              in if os_path_exists (fs w3) contigs_file
                 then (Inr True, logger INFO (''Contigs file generated: '' @ contigs_file) w3)
                 else (Inr True, logger WARNING (''Contigs file not found: '' @ contigs_file) w3))
         | (Inl (CalledProcessError rc err), w2) \<Rightarrow>
             (Inr False,
              logger ERROR (''Error message: '' @ err)
                (logger ERROR (''Return code: '' @ str_int rc)
                  (logger ERROR (''SPAdes assembly failed for: '' @ sample_path) w2)))
         | (Inl (FileNotFoundError m), w2) \<Rightarrow>
             (Inr False,
              logger ERROR ''SPAdes command not found. Please ensure SPAdes is properly installed'' w2)
         | (Inl e, w2) \<Rightarrow> (Inl e, w2))"

definition spades_validate_inputs :: "env \<Rightarrow> spades \<Rightarrow> world \<Rightarrow> (exn + bool) \<times> world" where
  "spades_validate_inputs E self w =
     (if \<not> os_path_exists (fs w) (base_input_dir self)
      then (Inr False,
            logger ERROR (''Base input directory does not exist: '' @ base_input_dir self) w)
      else (case subprocess_run E [''spades.py'', ''--version''] w of
              (Inr r, w1) \<Rightarrow> (Inr True, logger INFO ''SPAdes tool validation successful'' w1)
            | (Inl (CalledProcessError rc err), w1) \<Rightarrow>
                (Inr False, logger ERROR ''SPAdes command not found or version check failed'' w1)
            | (Inl (FileNotFoundError m), w1) \<Rightarrow>
                (Inr False, logger ERROR ''SPAdes command not found or version check failed'' w1)
            | (Inl e, w1) \<Rightarrow> (Inl e, w1)))"

text \<open>One turn of the per-sample loop of \<open>SpadesAnalysis.run_assembly\<close>.\<close>

definition spades_process_sample ::
  "env \<Rightarrow> spades \<Rightarrow> string \<Rightarrow> nat \<times> nat \<Rightarrow> world \<Rightarrow> (nat \<times> nat) \<times> world" where
  "spades_process_sample E self sample_path c w0 =
     (let failed = (\<lambda>e w'. ((fst c, snd c + 1),
                      logger ERROR (''Failed to process sample '' @ sample_path @ '': '' @ exn_str e) w'));
          w = logger INFO (''Processing sample: '' @ sample_path) w0
      in case decompress_fastq E self sample_path w of
           (Inl e, w1) \<Rightarrow> failed e w1
         | (Inr (r1_file, r2_file), w1) \<Rightarrow>
             (case run_spades E self sample_path r1_file r2_file w1 of
                (Inl e, w2) \<Rightarrow> failed e w2
              | (Inr True, w2) \<Rightarrow> ((fst c + 1, snd c), w2)
              | (Inr False, w2) \<Rightarrow> ((fst c, snd c + 1), w2)))"

fun spades_process_samples ::
  "env \<Rightarrow> spades \<Rightarrow> string list \<Rightarrow> nat \<times> nat \<Rightarrow> world \<Rightarrow> (nat \<times> nat) \<times> world" where
  "spades_process_samples E self [] c w = (c, w)"
| "spades_process_samples E self (s # rest) c w =
     (let (c', w') = spades_process_sample E self s c w
      in spades_process_samples E self rest c' w')"

record spades_summary =
  spades_samples_of :: "string list"
  spades_success_count :: nat
  spades_failed_count :: nat

definition spades_log_summary :: "spades \<Rightarrow> nat \<Rightarrow> nat \<times> nat \<Rightarrow> world \<Rightarrow> world" where
  "spades_log_summary self n c w =
     logger INFO hrule
       (logger INFO (''Results saved in: '' @ base_output_dir self)
         (logger INFO (''Total samples: '' @ str_nat n @ '' samples'')
           (logger INFO (''Failed assemblies: '' @ str_nat (snd c) @ '' samples'')
             (logger INFO (''Successfully assembled: '' @ str_nat (fst c) @ '' samples'')
               (logger INFO ''Assembly workflow completed!''
                 (logger INFO hrule w))))))"

definition run_assembly :: "env \<Rightarrow> spades \<Rightarrow> world \<Rightarrow> (exn + spades_summary option) \<times> world" where
  "run_assembly E self w0 =
     (let w = logger INFO ''Starting genome assembly workflow'' w0 in
      case spades_validate_inputs E self w of
        (Inl e, w1) \<Rightarrow> (Inl e, w1)
      | (Inr False, w1) \<Rightarrow> (Inr None, logger ERROR ''Input validation failed, exiting assembly'' w1)
      | (Inr True, w1) \<Rightarrow>
          (case spades_get_samples self w1 of
             (Inl e, w2) \<Rightarrow> (Inl e, w2)
           | (Inr samples, w2) \<Rightarrow>
               (if samples = []
                then (Inr None, logger ERROR ''No samples found, exiting assembly'' w2)
                else (let (c, w3) = spades_process_samples E self samples (0, 0) w2 in
                      (Inr (Some \<lparr>spades_samples_of = samples, spades_success_count = fst c,
                                  spades_failed_count = snd c\<rparr>),
                       spades_log_summary self (length samples) c w3)))))"

section \<open>The interactive configuration\<close>


definition print :: "string \<Rightarrow> world \<Rightarrow> world" where
  "print m w = w\<lparr>printed := printed w @ [m]\<rparr>"









section \<open>A concrete run\<close>

text \<open>
  A small file system holding a Snippy layout under \<open>reads\<close> (one sample with two
  forward files and one reverse file, one sample with a forward file only, a directory
  that is not a sample, and a sample directory placed directly under the root of the
  layout), a SPAdes layout under \<open>gz\<close> (one complete pair, one forward file without
  its reverse file), a reference file and an output directory.
\<close>

definition ex_fs :: filesystem where
  "ex_fs =
     [([''ref.fa''], File ''ACGT''),
      ([''out''], Dir),
      ([''reads''], Dir),
      ([''reads'', ''Staphylococcusaureus''], Dir),
      ([''reads'', ''Staphylococcusaureus'', ''MCR_CVU_1''], Dir),
      ([''reads'', ''Staphylococcusaureus'', ''MCR_CVU_1'', ''ILLUMINA_DATA''], Dir),
      ([''reads'', ''Staphylococcusaureus'', ''MCR_CVU_1'', ''ILLUMINA_DATA'', ''b_R1_trimmed.fastq''], File ''b1''),
      ([''reads'', ''Staphylococcusaureus'', ''MCR_CVU_1'', ''ILLUMINA_DATA'', ''a_R1_trimmed.fastq''], File ''a1''),
      ([''reads'', ''Staphylococcusaureus'', ''MCR_CVU_1'', ''ILLUMINA_DATA'', ''a_R2_trimmed.fastq''], File ''a2''),
      ([''reads'', ''Staphylococcusaureus'', ''MCR_CVU_2''], Dir),
      ([''reads'', ''Staphylococcusaureus'', ''MCR_CVU_2'', ''ILLUMINA_DATA''], Dir),
      ([''reads'', ''Staphylococcusaureus'', ''MCR_CVU_2'', ''ILLUMINA_DATA'', ''c_R1_trimmed.fastq''], File ''c1''),
      ([''reads'', ''Staphylococcusaureus'', ''notes''], Dir),
      ([''reads'', ''MCR_CVU_3''], Dir),
      ([''gz''], Dir),
      ([''gz'', ''X''], Dir),
      ([''gz'', ''X'', ''ILLUMINA_DATA''], Dir),
      ([''gz'', ''X'', ''ILLUMINA_DATA'', ''X_R1_trimmed.fastq.gz''], File ''x1''),
      ([''gz'', ''X'', ''ILLUMINA_DATA'', ''X_R2_trimmed.fastq.gz''], File ''x2''),
      ([''gz'', ''X'', ''ILLUMINA_DATA'', ''Y_R1_trimmed.fastq.gz''], File ''y1'')]"

definition ex_world :: world where
  "ex_world = \<lparr>fs = ex_fs, log = [], spawned = [], opened = [], stdin = [], printed = []\<rparr>"

text \<open>An external program that always exits with status zero and touches nothing.\<close>

definition ex_env :: env where
  "ex_env = \<lparr>tool = (\<lambda>n cmd F. (Completed 0 [] [], F)), gunzip = (\<lambda>d. (d, None))\<rparr>"

text \<open>One that exits with status one, and one that is not installed.\<close>

definition ex_env_failing :: env where
  "ex_env_failing = \<lparr>tool = (\<lambda>n cmd F. (Completed 1 [] ''boom'', F)), gunzip = (\<lambda>d. (d, None))\<rparr>"

definition ex_env_missing :: env where
  "ex_env_missing =
     \<lparr>tool = (\<lambda>n cmd F. (Raised (FileNotFoundError ''[Errno 2] No such file or directory''), F)),
      gunzip = (\<lambda>d. (d, None))\<rparr>"

definition ex_snippy :: snippy where
  "ex_snippy =
     \<lparr>base_path = ''reads'', output_base_dir = ''out'', ref_genome_path = ''ref.fa'',
      cpu_cores = 16, strains = supported_strains\<rparr>"

definition ex_spades :: spades where
  "ex_spades = \<lparr>base_input_dir = ''gz'', base_output_dir = ''out'', spades_cpu_cores = 16\<rparr>"


section \<open>Basic facts\<close>

lemma logger_fs [simp]: "fs (logger l m w) = fs w"
  by (simp add: logger_def)

lemma logger_spawned [simp]: "spawned (logger l m w) = spawned w"
  by (simp add: logger_def)

lemma logger_opened [simp]: "opened (logger l m w) = opened w"
  by (simp add: logger_def)

lemma logger_log [simp]: "log (logger l m w) = log w @ [(l, m)]"
  by (simp add: logger_def)

section \<open>The counters of the per-sample loop\<close>

lemma snippy_process_sample_step:
  "fst (snippy_process_sample E self s c w) = (fst c + 1, snd c) \<or>
   fst (snippy_process_sample E self s c w) = (fst c, snd c + 1)"
  by (simp add: snippy_process_sample_def Let_def split: prod.splits sum.splits bool.splits)

lemma spades_process_sample_step:
  "fst (spades_process_sample E self s c w) = (fst c + 1, snd c) \<or>
   fst (spades_process_sample E self s c w) = (fst c, snd c + 1)"
  by (simp add: spades_process_sample_def Let_def split: prod.splits sum.splits bool.splits)

lemma snippy_process_samples_count:
  "fst (fst (snippy_process_samples E self xs c w)) + snd (fst (snippy_process_samples E self xs c w))
     = fst c + snd c + length xs"
proof (induction xs arbitrary: c w)
  case Nil
  show ?case by simp
next
  case (Cons s rest)
  obtain c' w' where st: "snippy_process_sample E self s c w = (c', w')"
    by (cases "snippy_process_sample E self s c w")
  have "fst c' + snd c' = fst c + snd c + 1"
    using snippy_process_sample_step [of E self s c w] st by auto
  then show ?case using Cons.IH [of c' w'] st by simp
qed

lemma spades_process_samples_count:
  "fst (fst (spades_process_samples E self xs c w)) + snd (fst (spades_process_samples E self xs c w))
     = fst c + snd c + length xs"
proof (induction xs arbitrary: c w)
  case Nil
  show ?case by simp
next
  case (Cons s rest)
  obtain c' w' where st: "spades_process_sample E self s c w = (c', w')"
    by (cases "spades_process_sample E self s c w")
  have "fst c' + snd c' = fst c + snd c + 1"
    using spades_process_sample_step [of E self s c w] st by auto
  then show ?case using Cons.IH [of c' w'] st by simp
qed

text \<open>
  Claim C1. A run of either driver that passes validation and discovers at least one
  sample reaches the summary, and there the two counters add up to the number of samples
  that \<open>get_samples\<close> returned.
\<close>

theorem counters_sum_to_discovered:
  "(snippy_validate_inputs E sn (logger INFO ''Starting SNP analysis workflow'' w) = (Inr True, w1)
      \<and> snippy_get_samples sn w1 = (Inr samples, w2) \<and> samples \<noteq> []
    \<longrightarrow> (\<exists>s w'. run_analysis E sn w = (Inr (Some s), w') \<and> samples_of s = samples
             \<and> success_count s + failed_count s = length samples))
   \<and> (spades_validate_inputs E sp (logger INFO ''Starting genome assembly workflow'' v) = (Inr True, v1)
      \<and> spades_get_samples sp v1 = (Inr paths, v2) \<and> paths \<noteq> []
    \<longrightarrow> (\<exists>s v'. run_assembly E sp v = (Inr (Some s), v') \<and> spades_samples_of s = paths
             \<and> spades_success_count s + spades_failed_count s = length paths))"
proof (intro conjI impI)
  assume a: "snippy_validate_inputs E sn (logger INFO ''Starting SNP analysis workflow'' w) = (Inr True, w1)
      \<and> snippy_get_samples sn w1 = (Inr samples, w2) \<and> samples \<noteq> []"
  obtain c w3 where l: "snippy_process_samples E sn samples (0, 0) w2 = (c, w3)"
    by (cases "snippy_process_samples E sn samples (0, 0) w2")
  have "fst c + snd c = length samples"
    using snippy_process_samples_count [of E sn samples "(0, 0)" w2] l by simp
  then show "\<exists>s w'. run_analysis E sn w = (Inr (Some s), w') \<and> samples_of s = samples
             \<and> success_count s + failed_count s = length samples"
    using a l by (simp add: run_analysis_def Let_def)
next
  assume a: "spades_validate_inputs E sp (logger INFO ''Starting genome assembly workflow'' v) = (Inr True, v1)
      \<and> spades_get_samples sp v1 = (Inr paths, v2) \<and> paths \<noteq> []"
  obtain c v3 where l: "spades_process_samples E sp paths (0, 0) v2 = (c, v3)"
    by (cases "spades_process_samples E sp paths (0, 0) v2")
  have "fst c + snd c = length paths"
    using spades_process_samples_count [of E sp paths "(0, 0)" v2] l by simp
  then show "\<exists>s v'. run_assembly E sp v = (Inr (Some s), v') \<and> spades_samples_of s = paths
             \<and> spades_success_count s + spades_failed_count s = length paths"
    using a l by (simp add: run_assembly_def Let_def)
qed

theorem counters_sum_to_discovered_witness:
  "(\<exists>s w'. run_analysis ex_env ex_snippy ex_world = (Inr (Some s), w')
        \<and> samples_of s = [(''Staphylococcusaureus'', ''MCR_CVU_1''), (''Staphylococcusaureus'', ''MCR_CVU_2'')]
        \<and> success_count s + failed_count s = 2)
   \<and> (\<exists>s v'. run_assembly ex_env ex_spades ex_world = (Inr (Some s), v')
        \<and> spades_samples_of s = [''X/ILLUMINA_DATA/X'']
        \<and> spades_success_count s + spades_failed_count s = 1)"
proof -
  let ?w = "logger INFO ''Starting SNP analysis workflow'' ex_world"
  let ?w1 = "snd (snippy_validate_inputs ex_env ex_snippy ?w)"
  let ?w2 = "snd (snippy_get_samples ex_snippy ?w1)"
  let ?samples = "[(''Staphylococcusaureus'', ''MCR_CVU_1''), (''Staphylococcusaureus'', ''MCR_CVU_2'')]"
  let ?v = "logger INFO ''Starting genome assembly workflow'' ex_world"
  let ?v1 = "snd (spades_validate_inputs ex_env ex_spades ?v)"
  let ?v2 = "snd (spades_get_samples ex_spades ?v1)"
  let ?paths = "[''X/ILLUMINA_DATA/X'']"
  have a: "fst (snippy_validate_inputs ex_env ex_snippy ?w) = Inr True"
    by code_simp
  have b: "fst (snippy_get_samples ex_snippy ?w1) = Inr ?samples"
    by code_simp
  have c: "fst (spades_validate_inputs ex_env ex_spades ?v) = Inr True"
    by code_simp
  have d: "fst (spades_get_samples ex_spades ?v1) = Inr ?paths"
    by code_simp
  show ?thesis
    using counters_sum_to_discovered [of ex_env ex_snippy ex_world ?w1 ?samples ?w2
        ex_spades ex_world ?v1 ?paths ?v2] a b c d
    by (simp add: prod_eq_iff numeral_2_eq_2)
qed

section \<open>Sample discovery of the Snippy driver\<close>

lemma snippy_scan_items_fs:
  "fs (snd (snippy_scan_items strain strain_path items samples w)) = fs w"
  by (induction items arbitrary: samples w) (simp_all add: Let_def)

lemma snippy_scan_items_member:
  "(s, i) \<in> set (fst (snippy_scan_items strain strain_path items samples w)) \<Longrightarrow>
   (s, i) \<in> set samples \<or>
   (s = strain \<and> i \<in> set items \<and> os_path_isdir (fs w) (os_path_join strain_path i)
      \<and> startswith i ''MCR_CVU_'')"
proof (induction items arbitrary: samples w)
  case Nil
  then show ?case by simp
next
  case (Cons item items)
  show ?case
  proof (cases "os_path_isdir (fs w) (os_path_join strain_path item) \<and> startswith item ''MCR_CVU_''")
    case True
    then have "(s, i) \<in> set (fst (snippy_scan_items strain strain_path items (samples @ [(strain, item)])
                   (logger INFO (''Found sample: '' @ strain @ ''/'' @ item) w)))"
      using Cons.prems by (simp add: Let_def)
    from Cons.IH [OF this] True show ?thesis by auto
  next
    case False
    then have "(s, i) \<in> set (fst (snippy_scan_items strain strain_path items samples w))"
      using Cons.prems by (auto simp add: Let_def)
    from Cons.IH [OF this] show ?thesis by auto
  qed
qed

lemma snippy_scan_strains_member:
  "snippy_scan_strains self ss samples w = (Inr res, w') \<Longrightarrow> (s, i) \<in> set res \<Longrightarrow>
   (s, i) \<in> set samples \<or>
   (s \<in> set ss \<and> startswith i ''MCR_CVU_''
      \<and> os_path_isdir (fs w) (os_path_join (os_path_join (base_path self) s) i)
      \<and> (\<exists>items. os_listdir (fs w) (os_path_join (base_path self) s) = Inr items \<and> i \<in> set items))"
proof (induction ss arbitrary: samples w)
  case Nil
  then show ?case by simp
next
  case (Cons strain rest)
  let ?p = "os_path_join (base_path self) strain"
  show ?case
  proof (cases "os_path_exists (fs w) ?p")
    case False
    then have "snippy_scan_strains self rest samples
                 (logger WARNING (''Strain path does not exist: '' @ ?p) w) = (Inr res, w')"
      using Cons.prems(1) by (simp add: Let_def)
    from Cons.IH [OF this Cons.prems(2)] show ?thesis by auto
  next
    case True
    then obtain items where li: "os_listdir (fs w) ?p = Inr items"
      using Cons.prems(1) by (cases "os_listdir (fs w) ?p") (simp_all add: Let_def)
    obtain samples1 w1 where sc: "snippy_scan_items strain ?p items samples w = (samples1, w1)"
      by (cases "snippy_scan_items strain ?p items samples w")
    have f1: "fs w1 = fs w"
      using snippy_scan_items_fs [of strain ?p items samples w] sc by simp
    have "snippy_scan_strains self rest samples1 w1 = (Inr res, w')"
      using Cons.prems(1) True li sc by (simp add: Let_def)
    from Cons.IH [OF this Cons.prems(2)]
    have "(s, i) \<in> set samples1 \<or>
          (s \<in> set rest \<and> startswith i ''MCR_CVU_''
            \<and> os_path_isdir (fs w) (os_path_join (os_path_join (base_path self) s) i)
            \<and> (\<exists>items. os_listdir (fs w) (os_path_join (base_path self) s) = Inr items \<and> i \<in> set items))"
      using f1 by simp
    moreover have "(s, i) \<in> set samples1 \<Longrightarrow>
          (s, i) \<in> set samples \<or>
          (s = strain \<and> i \<in> set items \<and> os_path_isdir (fs w) (os_path_join ?p i)
             \<and> startswith i ''MCR_CVU_'')"
      using snippy_scan_items_member [of s i strain ?p items samples w] sc by simp
    ultimately show ?thesis using li by auto
  qed
qed

text \<open>
  Claim C10. In a Snippy driver built by its constructor, whatever the file system at
  the time of the call, every sample that \<open>get_samples\<close> returns is a pair of one of the four hard-coded strains and an entry
  of that strain's directory under the base path which is a directory and whose name
  starts with \<open>MCR_CVU_\<close>. So a sample directory directly under the base path, or under a
  directory with another name, is not returned.
\<close>

theorem snippy_samples_under_strains:
  "snippy_init bp out rf cpu w0 = (Inr sn, w1) \<and> snippy_get_samples sn w = (Inr samples, w')
     \<and> (strain, item) \<in> set samples
   \<longrightarrow> strain \<in> {''Acinetobacterbaumannii'', ''Pseudomonasaeruginosa'', ''Staphylococcusaureus'',
                  ''Klebsiellapneumoniae''}
       \<and> startswith item ''MCR_CVU_''
       \<and> os_path_isdir (fs w) (os_path_join (os_path_join bp strain) item)
       \<and> (\<exists>items. os_listdir (fs w) (os_path_join bp strain) = Inr items \<and> item \<in> set items)"
proof (intro impI, elim conjE)
  assume i: "snippy_init bp out rf cpu w0 = (Inr sn, w1)"
    and g: "snippy_get_samples sn w = (Inr samples, w')"
    and m: "(strain, item) \<in> set samples"
  have st: "strains sn = supported_strains" and bp: "base_path sn = bp"
    using i by (auto simp add: snippy_init_def split: sum.splits)
  have ex: "os_path_exists (fs w) (base_path sn)"
    using g m by (auto simp add: snippy_get_samples_def split: if_splits)
  obtain w1 where sc: "snippy_scan_strains sn (strains sn) [] w = (Inr samples, w1)"
    using g ex by (auto simp add: snippy_get_samples_def split: prod.splits sum.splits)
  from snippy_scan_strains_member [OF sc m]
  show "strain \<in> {''Acinetobacterbaumannii'', ''Pseudomonasaeruginosa'', ''Staphylococcusaureus'',
                  ''Klebsiellapneumoniae''}
       \<and> startswith item ''MCR_CVU_''
       \<and> os_path_isdir (fs w) (os_path_join (os_path_join bp strain) item)
       \<and> (\<exists>items. os_listdir (fs w) (os_path_join bp strain) = Inr items \<and> item \<in> set items)"
    using st bp by (simp add: supported_strains_def)
qed

theorem snippy_samples_under_strains_witness:
  "((''Staphylococcusaureus'', ''MCR_CVU_1'') \<in> set [(''Staphylococcusaureus'', ''MCR_CVU_1''), (''Staphylococcusaureus'', ''MCR_CVU_2'')])
   \<and> startswith ''MCR_CVU_1'' ''MCR_CVU_''
   \<and> os_path_isdir (fs ex_world) (os_path_join (os_path_join ''reads'' ''Staphylococcusaureus'') ''MCR_CVU_1'')
   \<and> (\<exists>items. os_listdir (fs ex_world) (os_path_join ''reads'' ''Staphylococcusaureus'') = Inr items
         \<and> ''MCR_CVU_1'' \<in> set items)"
proof -
  let ?samples = "[(''Staphylococcusaureus'', ''MCR_CVU_1''), (''Staphylococcusaureus'', ''MCR_CVU_2'')]"
  have a: "snippy_init ''reads'' ''out'' ''ref.fa'' 16 ex_world = (Inr ex_snippy, ex_world)"
    by code_simp
  have b: "fst (snippy_get_samples ex_snippy ex_world) = Inr ?samples"
    by code_simp
  have c: "(''Staphylococcusaureus'', ''MCR_CVU_1'') \<in> set ?samples"
    by simp
  show ?thesis
    using snippy_samples_under_strains [where bp = "''reads''" and out = "''out''" and rf = "''ref.fa''"
        and cpu = 16 and ?w0.0 = ex_world and sn = ex_snippy and ?w1.0 = ex_world and w = ex_world
        and samples = ?samples and w' = "snd (snippy_get_samples ex_snippy ex_world)"
        and strain = "''Staphylococcusaureus''" and item = "''MCR_CVU_1''"] a b c
    by (simp add: prod_eq_iff)
qed

section \<open>Decompression\<close>



section \<open>Validation\<close>

text \<open>
  Claim C6. When the input paths exist and the version probe of the external program
  raises \<open>FileNotFoundError\<close> or exits with a non-zero status, \<open>validate_inputs\<close>
  returns \<open>False\<close> and the run ends there: it returns without a summary, the only
  subprocess started is the probe, and besides the opening line the log holds the two error
  lines of the failed validation, so \<open>get_samples\<close>, which logs whenever it returns, and
  the per-sample loop did not run.
\<close>

theorem failed_probe_aborts_run:
  "(os_path_exists (fs w) (base_path sn) \<and> os_path_exists (fs w) (ref_genome_path sn)
      \<and> tool E (length (spawned w)) [''snippy'', ''--version''] (fs w) = (r, F')
      \<and> ((\<exists>m. r = Raised (FileNotFoundError m)) \<or> (\<exists>rc out err. r = Completed rc out err \<and> rc \<noteq> 0))
    \<longrightarrow> fst (snippy_validate_inputs E sn (logger INFO ''Starting SNP analysis workflow'' w)) = Inr False
        \<and> run_analysis E sn w =
            (Inr None,
             w\<lparr>fs := F',
               spawned := spawned w @ [([''snippy'', ''--version''], fs w)],
               log := log w @ [(INFO, ''Starting SNP analysis workflow''),
                               (ERROR, ''Snippy command not found or version check failed''),
                               (ERROR, ''Input validation failed, exiting analysis'')]\<rparr>))
   \<and> (os_path_exists (fs v) (base_input_dir sp)
      \<and> tool E (length (spawned v)) [''spades.py'', ''--version''] (fs v) = (r', G')
      \<and> ((\<exists>m. r' = Raised (FileNotFoundError m)) \<or> (\<exists>rc out err. r' = Completed rc out err \<and> rc \<noteq> 0))
    \<longrightarrow> fst (spades_validate_inputs E sp (logger INFO ''Starting genome assembly workflow'' v)) = Inr False
        \<and> run_assembly E sp v =
            (Inr None,
             v\<lparr>fs := G',
               spawned := spawned v @ [([''spades.py'', ''--version''], fs v)],
               log := log v @ [(INFO, ''Starting genome assembly workflow''),
                               (ERROR, ''SPAdes command not found or version check failed''),
                               (ERROR, ''Input validation failed, exiting assembly'')]\<rparr>))"
proof (intro conjI impI)
  assume a: "os_path_exists (fs w) (base_path sn) \<and> os_path_exists (fs w) (ref_genome_path sn)
      \<and> tool E (length (spawned w)) [''snippy'', ''--version''] (fs w) = (r, F')
      \<and> ((\<exists>m. r = Raised (FileNotFoundError m)) \<or> (\<exists>rc out err. r = Completed rc out err \<and> rc \<noteq> 0))"
  let ?w = "logger INFO ''Starting SNP analysis workflow'' w"
  let ?w1 = "w\<lparr>fs := F', spawned := spawned w @ [([''snippy'', ''--version''], fs w)],
               log := log w @ [(INFO, ''Starting SNP analysis workflow'')]\<rparr>"
  have v: "snippy_validate_inputs E sn ?w =
             (Inr False, logger ERROR ''Snippy command not found or version check failed'' ?w1)"
    using a by (auto simp add: snippy_validate_inputs_def subprocess_run_def logger_def)
  show "fst (snippy_validate_inputs E sn ?w) = Inr False"
    using v by simp
  show "run_analysis E sn w =
            (Inr None,
             w\<lparr>fs := F',
               spawned := spawned w @ [([''snippy'', ''--version''], fs w)],
               log := log w @ [(INFO, ''Starting SNP analysis workflow''),
                               (ERROR, ''Snippy command not found or version check failed''),
                               (ERROR, ''Input validation failed, exiting analysis'')]\<rparr>)"
    using v by (simp add: run_analysis_def logger_def)
next
  assume a: "os_path_exists (fs v) (base_input_dir sp)
      \<and> tool E (length (spawned v)) [''spades.py'', ''--version''] (fs v) = (r', G')
      \<and> ((\<exists>m. r' = Raised (FileNotFoundError m)) \<or> (\<exists>rc out err. r' = Completed rc out err \<and> rc \<noteq> 0))"
  let ?v = "logger INFO ''Starting genome assembly workflow'' v"
  let ?v1 = "v\<lparr>fs := G', spawned := spawned v @ [([''spades.py'', ''--version''], fs v)],
               log := log v @ [(INFO, ''Starting genome assembly workflow'')]\<rparr>"
  have vv: "spades_validate_inputs E sp ?v =
             (Inr False, logger ERROR ''SPAdes command not found or version check failed'' ?v1)"
    using a by (auto simp add: spades_validate_inputs_def subprocess_run_def logger_def)
  show "fst (spades_validate_inputs E sp ?v) = Inr False"
    using vv by simp
  show "run_assembly E sp v =
            (Inr None,
             v\<lparr>fs := G',
               spawned := spawned v @ [([''spades.py'', ''--version''], fs v)],
               log := log v @ [(INFO, ''Starting genome assembly workflow''),
                               (ERROR, ''SPAdes command not found or version check failed''),
                               (ERROR, ''Input validation failed, exiting assembly'')]\<rparr>)"
    using vv by (simp add: run_assembly_def logger_def)
qed

theorem failed_probe_aborts_run_witness:
  "run_analysis ex_env_missing ex_snippy ex_world =
     (Inr None,
      ex_world\<lparr>fs := ex_fs,
               spawned := [([''snippy'', ''--version''], ex_fs)],
               log := [(INFO, ''Starting SNP analysis workflow''),
                       (ERROR, ''Snippy command not found or version check failed''),
                       (ERROR, ''Input validation failed, exiting analysis'')]\<rparr>)
   \<and> run_assembly ex_env_failing ex_spades ex_world =
     (Inr None,
      ex_world\<lparr>fs := ex_fs,
               spawned := [([''spades.py'', ''--version''], ex_fs)],
               log := [(INFO, ''Starting genome assembly workflow''),
                       (ERROR, ''SPAdes command not found or version check failed''),
                       (ERROR, ''Input validation failed, exiting assembly'')]\<rparr>)"
proof -
  have a: "os_path_exists (fs ex_world) (base_path ex_snippy)"
    by code_simp
  have b: "os_path_exists (fs ex_world) (ref_genome_path ex_snippy)"
    by code_simp
  have c: "tool ex_env_missing (length (spawned ex_world)) [''snippy'', ''--version''] (fs ex_world)
             = (Raised (FileNotFoundError ''[Errno 2] No such file or directory''), ex_fs)"
    by (simp add: ex_env_missing_def ex_world_def)
  have d: "os_path_exists (fs ex_world) (base_input_dir ex_spades)"
    by code_simp
  have e: "tool ex_env_failing (length (spawned ex_world)) [''spades.py'', ''--version''] (fs ex_world)
             = (Completed 1 [] ''boom'', ex_fs)"
    by (simp add: ex_env_failing_def ex_world_def)
  have f: "spawned ex_world = [] \<and> log ex_world = [] \<and> fs ex_world = ex_fs"
    by (simp add: ex_world_def)
  have "run_analysis ex_env_missing ex_snippy ex_world =
     (Inr None,
      ex_world\<lparr>fs := ex_fs,
               spawned := [([''snippy'', ''--version''], ex_fs)],
               log := [(INFO, ''Starting SNP analysis workflow''),
                       (ERROR, ''Snippy command not found or version check failed''),
                       (ERROR, ''Input validation failed, exiting analysis'')]\<rparr>)"
    using failed_probe_aborts_run [of ex_world ex_snippy ex_env_missing
        "Raised (FileNotFoundError ''[Errno 2] No such file or directory'')" ex_fs] a b c f
    by simp
  moreover have "run_assembly ex_env_failing ex_spades ex_world =
     (Inr None,
      ex_world\<lparr>fs := ex_fs,
               spawned := [([''spades.py'', ''--version''], ex_fs)],
               log := [(INFO, ''Starting genome assembly workflow''),
                       (ERROR, ''SPAdes command not found or version check failed''),
                       (ERROR, ''Input validation failed, exiting assembly'')]\<rparr>)"
    using failed_probe_aborts_run [of _ _ ex_env_failing _ _ ex_world ex_spades
        "Completed 1 [] ''boom''" ex_fs] d e f
    by simp
  ultimately show ?thesis by simp
qed

section \<open>Classifying the outcome of the external program\<close>



section \<open>Exceptions while resolving the inputs of a sample\<close>

lemma snippy_process_samples_append:
  "snippy_process_samples E sn (xs @ ys) c w =
     snippy_process_samples E sn ys (fst (snippy_process_samples E sn xs c w))
       (snd (snippy_process_samples E sn xs c w))"
  by (induction xs arbitrary: c w) (simp_all add: Let_def split: prod.splits)

lemma spades_process_samples_append:
  "spades_process_samples E sp (xs @ ys) c w =
     spades_process_samples E sp ys (fst (spades_process_samples E sp xs c w))
       (snd (spades_process_samples E sp xs c w))"
  by (induction xs arbitrary: c w) (simp_all add: Let_def split: prod.splits)

text \<open>
  Claim C3. Wherever a sample stands in the list, if resolving its input files raises,
  the loop does not stop: the failure counter goes up by one, an error line with the
  text of the exception is logged, and the loop goes on with the samples that follow,
  each of which is counted in turn.
\<close>

theorem input_exception_counted_and_loop_continues:
  "(snippy_process_samples E sn pre c w = (c1, w1)
      \<and> get_fastq_files sn strain sample w1 = (Inl e, w2)
    \<longrightarrow> snippy_process_samples E sn (pre @ (strain, sample) # rest) c w =
          snippy_process_samples E sn rest (fst c1, snd c1 + 1)
            (logger ERROR (''Failed to process sample '' @ strain @ ''/'' @ sample @ '': '' @ exn_str e) w2)
        \<and> fst (fst (snippy_process_samples E sn (pre @ (strain, sample) # rest) c w))
            + snd (fst (snippy_process_samples E sn (pre @ (strain, sample) # rest) c w))
          = fst c1 + (snd c1 + 1) + length rest)
   \<and> (spades_process_samples E sp pre' c' v = (c1', v1)
      \<and> decompress_fastq E sp p (logger INFO (''Processing sample: '' @ p) v1) = (Inl e', v2)
    \<longrightarrow> spades_process_samples E sp (pre' @ p # rest') c' v =
          spades_process_samples E sp rest' (fst c1', snd c1' + 1)
            (logger ERROR (''Failed to process sample '' @ p @ '': '' @ exn_str e') v2)
        \<and> fst (fst (spades_process_samples E sp (pre' @ p # rest') c' v))
            + snd (fst (spades_process_samples E sp (pre' @ p # rest') c' v))
          = fst c1' + (snd c1' + 1) + length rest')"
proof (intro conjI impI)
  assume a: "snippy_process_samples E sn pre c w = (c1, w1)
      \<and> get_fastq_files sn strain sample w1 = (Inl e, w2)"
  let ?w = "logger ERROR (''Failed to process sample '' @ strain @ ''/'' @ sample @ '': '' @ exn_str e) w2"
  have s: "snippy_process_sample E sn (strain, sample) c1 w1 = ((fst c1, snd c1 + 1), ?w)"
    using a by (simp add: snippy_process_sample_def)
  show eq: "snippy_process_samples E sn (pre @ (strain, sample) # rest) c w =
          snippy_process_samples E sn rest (fst c1, snd c1 + 1) ?w"
    using a s by (simp add: snippy_process_samples_append)
  show "fst (fst (snippy_process_samples E sn (pre @ (strain, sample) # rest) c w))
            + snd (fst (snippy_process_samples E sn (pre @ (strain, sample) # rest) c w))
          = fst c1 + (snd c1 + 1) + length rest"
    using snippy_process_samples_count [of E sn rest "(fst c1, snd c1 + 1)" ?w]
    by (simp only: eq fst_conv snd_conv)
next
  assume a: "spades_process_samples E sp pre' c' v = (c1', v1)
      \<and> decompress_fastq E sp p (logger INFO (''Processing sample: '' @ p) v1) = (Inl e', v2)"
  let ?v = "logger ERROR (''Failed to process sample '' @ p @ '': '' @ exn_str e') v2"
  have s: "spades_process_sample E sp p c1' v1 = ((fst c1', snd c1' + 1), ?v)"
    using a by (simp add: spades_process_sample_def)
  show eq: "spades_process_samples E sp (pre' @ p # rest') c' v =
          spades_process_samples E sp rest' (fst c1', snd c1' + 1) ?v"
    using a s by (simp add: spades_process_samples_append)
  show "fst (fst (spades_process_samples E sp (pre' @ p # rest') c' v))
            + snd (fst (spades_process_samples E sp (pre' @ p # rest') c' v))
          = fst c1' + (snd c1' + 1) + length rest'"
    using spades_process_samples_count [of E sp rest' "(fst c1', snd c1' + 1)" ?v]
    by (simp only: eq fst_conv snd_conv)
qed

theorem input_exception_counted_and_loop_continues_witness:
  "fst (snippy_process_samples ex_env ex_snippy
          [(''Staphylococcusaureus'', ''MCR_CVU_2''), (''Staphylococcusaureus'', ''MCR_CVU_1'')] (0, 0) ex_world)
     = (1, 1)
   \<and> fst (spades_process_samples ex_env ex_spades [''X/ILLUMINA_DATA/Y'', ''X/ILLUMINA_DATA/X''] (0, 0) ex_world)
     = (1, 1)"
proof -
  let ?e = "FileNotFoundError ''No matching FASTQ files found for: Staphylococcusaureus/MCR_CVU_2''"
  let ?w = "logger ERROR (''Failed to process sample '' @ ''Staphylococcusaureus'' @ ''/'' @ ''MCR_CVU_2'' @ '': '' @ exn_str ?e) ex_world"
  let ?d = "decompress_fastq ex_env ex_spades ''X/ILLUMINA_DATA/Y'' (logger INFO (''Processing sample: '' @ ''X/ILLUMINA_DATA/Y'') ex_world)"
  let ?e' = "FileNotFoundError ''R2 file not found: gz/X/ILLUMINA_DATA/Y_R2_trimmed.fastq.gz''"
  let ?v = "logger ERROR (''Failed to process sample '' @ ''X/ILLUMINA_DATA/Y'' @ '': '' @ exn_str ?e') (snd ?d)"
  have a: "snippy_process_samples ex_env ex_snippy [] (0, 0) ex_world = ((0, 0), ex_world)"
    by simp
  have b: "get_fastq_files ex_snippy ''Staphylococcusaureus'' ''MCR_CVU_2'' ex_world = (Inl ?e, ex_world)"
    by code_simp
  have c: "fst (snippy_process_samples ex_env ex_snippy [(''Staphylococcusaureus'', ''MCR_CVU_1'')] (0, 1) ?w) = (1, 1)"
    by code_simp
  have a': "spades_process_samples ex_env ex_spades [] (0, 0) ex_world = ((0, 0), ex_world)"
    by simp
  have b': "fst ?d = Inl ?e'"
    by code_simp
  have c': "fst (spades_process_samples ex_env ex_spades [''X/ILLUMINA_DATA/X''] (0, 1) ?v) = (1, 1)"
    by code_simp
  have "fst (snippy_process_samples ex_env ex_snippy
          ([] @ (''Staphylococcusaureus'', ''MCR_CVU_2'') # [(''Staphylococcusaureus'', ''MCR_CVU_1'')]) (0, 0) ex_world)
     = (1, 1)"
    using input_exception_counted_and_loop_continues [of ex_env ex_snippy "[]" "(0, 0)" ex_world "(0, 0)" ex_world
        "''Staphylococcusaureus''" "''MCR_CVU_2''" ?e ex_world "[(''Staphylococcusaureus'', ''MCR_CVU_1'')]"] a b c
    by simp
  moreover have "fst (spades_process_samples ex_env ex_spades ([] @ ''X/ILLUMINA_DATA/Y'' # [''X/ILLUMINA_DATA/X'']) (0, 0) ex_world)
     = (1, 1)"
    using input_exception_counted_and_loop_continues [of ex_env _ _ _ _ _ _ _ _ _ _ _ ex_spades "[]" "(0, 0)" ex_world
        "(0, 0)" ex_world "''X/ILLUMINA_DATA/Y''" ?e' "snd ?d" "[''X/ILLUMINA_DATA/X'']"] a' b' c'
    by (simp add: prod_eq_iff)
  ultimately show ?thesis by simp
qed

section \<open>The pair of input files of a sample\<close>

lemma hd_sort_Min:
  fixes xs :: "'a::linorder list"
  assumes "xs \<noteq> []"
  shows "hd (sort xs) = Min (set xs)"
proof -
  have "set (sort xs) = set xs" by simp
  then have "sort xs \<noteq> []" using assms by (metis set_empty)
  then obtain y ys where s: "sort xs = y # ys" by (cases "sort xs") auto
  have "sorted (y # ys)" using sorted_sort [of xs] s by simp
  then have le: "\<forall>z \<in> set (y # ys). y \<le> z" by auto
  have st: "set (y # ys) = set xs" using s by (metis set_sort)
  have "Min (set xs) = y"
  proof (rule Min_eqI)
    show "finite (set xs)" by simp
    show "\<And>z. z \<in> set xs \<Longrightarrow> y \<le> z" using le st by blast
    show "y \<in> set xs" using st by auto
  qed
  then show ?thesis using s by simp
qed

lemma reverse_suffix_not_forward:
  "endswith f ''R2_trimmed.fastq'' \<Longrightarrow> \<not> endswith f ''R1_trimmed.fastq''"
  by (auto simp add: endswith_def)

lemma reverse_filter:
  "filter (\<lambda>f. \<not> endswith f ''R1_trimmed.fastq'' \<and> endswith f ''R2_trimmed.fastq'') files
     = filter (\<lambda>f. endswith f ''R2_trimmed.fastq'') files"
  by (rule filter_cong) (auto dest: reverse_suffix_not_forward)

lemma decompress_fastq_paths:
  "fst (decompress_fastq E sp p v) = Inr (a, b) \<Longrightarrow>
   a = os_path_join (base_input_dir sp) (p @ ''_R1_trimmed.fastq'')
     \<and> b = os_path_join (base_input_dir sp) (p @ ''_R2_trimmed.fastq'')"
  unfolding decompress_fastq_def Let_def
  by (simp split: if_splits prod.splits sum.splits)

text \<open>
  Claim C7, as the code has it. Snippy: when the \<open>ILLUMINA_DATA\<close> directory of a sample
  can be listed, \<open>get_fastq_files\<close> succeeds exactly when at least one entry ends in
  \<open>R1_trimmed.fastq\<close> and at least one ends in \<open>R2_trimmed.fastq\<close>, and then resolves
  exactly one pair: the least forward path and the least reverse path in string order,
  whatever the number of candidates. With no forward or no reverse file it raises, and
  the turn of the loop counts the sample as failed, logs one error line and starts no
  subprocess. SPAdes: the pair that \<open>decompress_fastq\<close> resolves is fixed by the sample
  identifier.
\<close>

theorem one_pair_resolved_per_sample:
  "(os_listdir (fs w) (os_path_join (os_path_join (os_path_join (base_path sn) strain) sample) ''ILLUMINA_DATA'')
        = Inr files
      \<and> os_path_exists (fs w) (os_path_join (os_path_join (os_path_join (base_path sn) strain) sample) ''ILLUMINA_DATA'')
      \<and> R1 = map (os_path_join (os_path_join (os_path_join (os_path_join (base_path sn) strain) sample) ''ILLUMINA_DATA''))
                (filter (\<lambda>f. endswith f ''R1_trimmed.fastq'') files)
      \<and> R2 = map (os_path_join (os_path_join (os_path_join (os_path_join (base_path sn) strain) sample) ''ILLUMINA_DATA''))
                (filter (\<lambda>f. endswith f ''R2_trimmed.fastq'') files)
    \<longrightarrow> (R1 \<noteq> [] \<and> R2 \<noteq> [] \<longrightarrow>
            fst (get_fastq_files sn strain sample w) = Inr (Min (set R1), Min (set R2)))
        \<and> (R1 = [] \<or> R2 = [] \<longrightarrow>
            fst (get_fastq_files sn strain sample w)
              = Inl (FileNotFoundError (''No matching FASTQ files found for: '' @ strain @ ''/'' @ sample))
            \<and> snippy_process_sample E sn (strain, sample) c w =
                ((fst c, snd c + 1),
                 logger ERROR (''Failed to process sample '' @ strain @ ''/'' @ sample @ '': ''
                     @ ''No matching FASTQ files found for: '' @ strain @ ''/'' @ sample) w)))
   \<and> (fst (decompress_fastq E sp p v) = Inr (a, b)
    \<longrightarrow> a = os_path_join (base_input_dir sp) (p @ ''_R1_trimmed.fastq'')
        \<and> b = os_path_join (base_input_dir sp) (p @ ''_R2_trimmed.fastq''))"
proof (intro conjI impI)
  let ?sp = "os_path_join (os_path_join (os_path_join (base_path sn) strain) sample) ''ILLUMINA_DATA''"
  assume a: "os_listdir (fs w) ?sp = Inr files
      \<and> os_path_exists (fs w) ?sp
      \<and> R1 = map (os_path_join ?sp) (filter (\<lambda>f. endswith f ''R1_trimmed.fastq'') files)
      \<and> R2 = map (os_path_join ?sp) (filter (\<lambda>f. endswith f ''R2_trimmed.fastq'') files)"
  have f2: "filter (\<lambda>f. \<not> endswith f ''R1_trimmed.fastq'' \<and> endswith f ''R2_trimmed.fastq'') files
              = filter (\<lambda>f. endswith f ''R2_trimmed.fastq'') files"
    by (rule reverse_filter)
  {
    assume ne: "R1 \<noteq> [] \<and> R2 \<noteq> []"
    then have sne: "sort R1 \<noteq> [] \<and> sort R2 \<noteq> []"
      by (metis set_sort set_empty)
    have "get_fastq_files sn strain sample w =
            (Inr (hd (sort R1), hd (sort R2)),
             logger INFO (''  R2: '' @ os_path_basename (hd (sort R2)))
               (logger INFO (''  R1: '' @ os_path_basename (hd (sort R1)))
                 (logger INFO (''Found FASTQ files for: '' @ strain @ ''/'' @ sample) w)))"
      unfolding get_fastq_files_def Let_def reverse_filter using a sne by simp
    then show "fst (get_fastq_files sn strain sample w) = Inr (Min (set R1), Min (set R2))"
      using ne hd_sort_Min [of R1] hd_sort_Min [of R2] by simp
  }
  {
    assume em: "R1 = [] \<or> R2 = []"
    then have se: "sort R1 = [] \<or> sort R2 = []"
      by auto
    have g: "get_fastq_files sn strain sample w
              = (Inl (FileNotFoundError (''No matching FASTQ files found for: '' @ strain @ ''/'' @ sample)), w)"
      unfolding get_fastq_files_def Let_def reverse_filter using a se by auto
    show "fst (get_fastq_files sn strain sample w)
              = Inl (FileNotFoundError (''No matching FASTQ files found for: '' @ strain @ ''/'' @ sample))"
      using g by simp
    show "snippy_process_sample E sn (strain, sample) c w =
                ((fst c, snd c + 1),
                 logger ERROR (''Failed to process sample '' @ strain @ ''/'' @ sample @ '': ''
                     @ ''No matching FASTQ files found for: '' @ strain @ ''/'' @ sample) w)"
      using g by (simp add: snippy_process_sample_def)
  }
next
  assume h: "fst (decompress_fastq E sp p v) = Inr (a, b)"
  show "a = os_path_join (base_input_dir sp) (p @ ''_R1_trimmed.fastq'')"
    using decompress_fastq_paths [OF h] by simp
  show "b = os_path_join (base_input_dir sp) (p @ ''_R2_trimmed.fastq'')"
    using decompress_fastq_paths [OF h] by simp
qed

theorem one_pair_resolved_per_sample_witness:
  "fst (get_fastq_files ex_snippy ''Staphylococcusaureus'' ''MCR_CVU_1'' ex_world)
     = Inr (''reads/Staphylococcusaureus/MCR_CVU_1/ILLUMINA_DATA/a_R1_trimmed.fastq'',
            ''reads/Staphylococcusaureus/MCR_CVU_1/ILLUMINA_DATA/a_R2_trimmed.fastq'')
   \<and> fst (snippy_process_sample ex_env ex_snippy (''Staphylococcusaureus'', ''MCR_CVU_2'') (0, 0) ex_world) = (0, 1)"
proof -
  let ?d1 = "os_path_join (os_path_join (os_path_join (base_path ex_snippy) ''Staphylococcusaureus'') ''MCR_CVU_1'') ''ILLUMINA_DATA''"
  let ?d2 = "os_path_join (os_path_join (os_path_join (base_path ex_snippy) ''Staphylococcusaureus'') ''MCR_CVU_2'') ''ILLUMINA_DATA''"
  let ?files1 = "[''b_R1_trimmed.fastq'', ''a_R1_trimmed.fastq'', ''a_R2_trimmed.fastq'']"
  let ?files2 = "[''c_R1_trimmed.fastq'']"
  let ?R1 = "[''reads/Staphylococcusaureus/MCR_CVU_1/ILLUMINA_DATA/b_R1_trimmed.fastq'',
              ''reads/Staphylococcusaureus/MCR_CVU_1/ILLUMINA_DATA/a_R1_trimmed.fastq'']"
  let ?R2 = "[''reads/Staphylococcusaureus/MCR_CVU_1/ILLUMINA_DATA/a_R2_trimmed.fastq'']"
  let ?Q1 = "[''reads/Staphylococcusaureus/MCR_CVU_2/ILLUMINA_DATA/c_R1_trimmed.fastq'']"
  have l1: "os_listdir (fs ex_world) ?d1 = Inr ?files1"
    by code_simp
  have e1: "os_path_exists (fs ex_world) ?d1"
    by code_simp
  have r1: "?R1 = map (os_path_join ?d1) (filter (\<lambda>f. endswith f ''R1_trimmed.fastq'') ?files1)"
    by code_simp
  have r2: "?R2 = map (os_path_join ?d1) (filter (\<lambda>f. endswith f ''R2_trimmed.fastq'') ?files1)"
    by code_simp
  have m1: "Min (set ?R1) = ''reads/Staphylococcusaureus/MCR_CVU_1/ILLUMINA_DATA/a_R1_trimmed.fastq''"
    by code_simp
  have l2: "os_listdir (fs ex_world) ?d2 = Inr ?files2"
    by code_simp
  have e2: "os_path_exists (fs ex_world) ?d2"
    by code_simp
  have q1: "?Q1 = map (os_path_join ?d2) (filter (\<lambda>f. endswith f ''R1_trimmed.fastq'') ?files2)"
    by code_simp
  have q2: "[] = map (os_path_join ?d2) (filter (\<lambda>f. endswith f ''R2_trimmed.fastq'') ?files2)"
    by code_simp
  have m2: "Min (set ?R2) = ''reads/Staphylococcusaureus/MCR_CVU_1/ILLUMINA_DATA/a_R2_trimmed.fastq''"
    by code_simp
  have h1: "os_listdir (fs ex_world) ?d1 = Inr ?files1 \<and> os_path_exists (fs ex_world) ?d1
      \<and> ?R1 = map (os_path_join ?d1) (filter (\<lambda>f. endswith f ''R1_trimmed.fastq'') ?files1)
      \<and> ?R2 = map (os_path_join ?d1) (filter (\<lambda>f. endswith f ''R2_trimmed.fastq'') ?files1)"
    using l1 e1 r1 r2 by (intro conjI)
  have h2: "os_listdir (fs ex_world) ?d2 = Inr ?files2 \<and> os_path_exists (fs ex_world) ?d2
      \<and> ?Q1 = map (os_path_join ?d2) (filter (\<lambda>f. endswith f ''R1_trimmed.fastq'') ?files2)
      \<and> [] = map (os_path_join ?d2) (filter (\<lambda>f. endswith f ''R2_trimmed.fastq'') ?files2)"
    using l2 e2 q1 q2 by (intro conjI)
  have "fst (get_fastq_files ex_snippy ''Staphylococcusaureus'' ''MCR_CVU_1'' ex_world)
     = Inr (Min (set ?R1), Min (set ?R2))"
    using one_pair_resolved_per_sample [of ex_world ex_snippy "''Staphylococcusaureus''" "''MCR_CVU_1''"
        ?files1 ?R1 ?R2, THEN conjunct1, THEN mp, OF h1]
    by blast
  then have p1: "fst (get_fastq_files ex_snippy ''Staphylococcusaureus'' ''MCR_CVU_1'' ex_world)
     = Inr (''reads/Staphylococcusaureus/MCR_CVU_1/ILLUMINA_DATA/a_R1_trimmed.fastq'',
            ''reads/Staphylococcusaureus/MCR_CVU_1/ILLUMINA_DATA/a_R2_trimmed.fastq'')"
    by (simp only: m1 m2)
  have "snippy_process_sample ex_env ex_snippy (''Staphylococcusaureus'', ''MCR_CVU_2'') (0, 0) ex_world
          = ((fst (0::nat, 0::nat), snd (0::nat, 0::nat) + 1),
             logger ERROR (''Failed to process sample '' @ ''Staphylococcusaureus'' @ ''/'' @ ''MCR_CVU_2'' @ '': ''
                     @ ''No matching FASTQ files found for: '' @ ''Staphylococcusaureus'' @ ''/'' @ ''MCR_CVU_2'') ex_world)"
    using one_pair_resolved_per_sample [of ex_world ex_snippy "''Staphylococcusaureus''" "''MCR_CVU_2''"
        ?files2 ?Q1 "[]" ex_env "(0, 0)", THEN conjunct1, THEN mp, OF h2]
    by blast
  then have p2: "fst (snippy_process_sample ex_env ex_snippy (''Staphylococcusaureus'', ''MCR_CVU_2'') (0, 0) ex_world) = (0, 1)"
    by simp
  show ?thesis using p1 p2 by simp
qed

text \<open>
  Claim C7 as stated fails: the sample \<open>MCR_CVU_1\<close> of the concrete run has two forward
  files, yet it is not skipped. The turn of the loop starts Snippy on the first forward
  file in string order, counts a success and logs no error.
\<close>

theorem two_forward_files_not_skipped:
  "os_listdir (fs ex_world) ''reads/Staphylococcusaureus/MCR_CVU_1/ILLUMINA_DATA''
     = Inr [''b_R1_trimmed.fastq'', ''a_R1_trimmed.fastq'', ''a_R2_trimmed.fastq'']
   \<and> fst (snippy_process_sample ex_env ex_snippy (''Staphylococcusaureus'', ''MCR_CVU_1'') (0, 0) ex_world) = (1, 0)
   \<and> map fst (log (snd (snippy_process_sample ex_env ex_snippy (''Staphylococcusaureus'', ''MCR_CVU_1'') (0, 0) ex_world)))
     = [INFO, INFO, INFO, INFO, INFO, INFO, INFO]
   \<and> map fst (spawned (snd (snippy_process_sample ex_env ex_snippy (''Staphylococcusaureus'', ''MCR_CVU_1'') (0, 0) ex_world)))
     = [[''snippy'', ''--cpu'', ''16'', ''--outdir'', ''out/Staphylococcusaureus/MCR_CVU_1_mysnps'',
         ''--ref'', ''ref.fa'',
         ''--R1'', ''reads/Staphylococcusaureus/MCR_CVU_1/ILLUMINA_DATA/a_R1_trimmed.fastq'',
         ''--R2'', ''reads/Staphylococcusaureus/MCR_CVU_1/ILLUMINA_DATA/a_R2_trimmed.fastq'']]"
proof (intro conjI)
  show "os_listdir (fs ex_world) ''reads/Staphylococcusaureus/MCR_CVU_1/ILLUMINA_DATA''
     = Inr [''b_R1_trimmed.fastq'', ''a_R1_trimmed.fastq'', ''a_R2_trimmed.fastq'']"
    by code_simp
  show "fst (snippy_process_sample ex_env ex_snippy (''Staphylococcusaureus'', ''MCR_CVU_1'') (0, 0) ex_world) = (1, 0)"
    by code_simp
  show "map fst (log (snd (snippy_process_sample ex_env ex_snippy (''Staphylococcusaureus'', ''MCR_CVU_1'') (0, 0) ex_world)))
     = [INFO, INFO, INFO, INFO, INFO, INFO, INFO]"
    by code_simp
  show "map fst (spawned (snd (snippy_process_sample ex_env ex_snippy (''Staphylococcusaureus'', ''MCR_CVU_1'') (0, 0) ex_world)))
     = [[''snippy'', ''--cpu'', ''16'', ''--outdir'', ''out/Staphylococcusaureus/MCR_CVU_1_mysnps'',
         ''--ref'', ''ref.fa'',
         ''--R1'', ''reads/Staphylococcusaureus/MCR_CVU_1/ILLUMINA_DATA/a_R1_trimmed.fastq'',
         ''--R2'', ''reads/Staphylococcusaureus/MCR_CVU_1/ILLUMINA_DATA/a_R2_trimmed.fastq'']]"
    by code_simp
qed

section \<open>The interactive prompts\<close>

lemma print_fs [simp]: "fs (print m w) = fs w"
  by (simp add: print_def)









section \<open>Samples without a reverse-read file\<close>

lemma spades_scan_r1_fs:
  "fs (snd (spades_scan_r1 directory input_dir r1s samples w)) = fs w"
  by (induction r1s arbitrary: samples w) (simp_all add: Let_def)

lemma spades_scan_r1_member:
  "p \<in> set (fst (spades_scan_r1 directory input_dir r1s samples w)) \<Longrightarrow>
   p \<in> set samples \<or>
   (\<exists>r1_file \<in> set r1s.
      os_path_exists (fs w)
        (os_path_join input_dir (replace r1_file ''_R1_trimmed.fastq.gz'' ''_R2_trimmed.fastq.gz''))
      \<and> p = os_path_join (os_path_join directory ''ILLUMINA_DATA'')
              (replace r1_file ''_R1_trimmed.fastq.gz'' []))"
proof (induction r1s arbitrary: samples w)
  case Nil
  then show ?case by simp
next
  case (Cons r1_file rest)
  let ?r2 = "os_path_join input_dir (replace r1_file ''_R1_trimmed.fastq.gz'' ''_R2_trimmed.fastq.gz'')"
  let ?sp = "os_path_join (os_path_join directory ''ILLUMINA_DATA'') (replace r1_file ''_R1_trimmed.fastq.gz'' [])"
  show ?case
  proof (cases "os_path_exists (fs w) ?r2")
    case True
    then have "p \<in> set (fst (spades_scan_r1 directory input_dir rest (samples @ [?sp])
                  (logger INFO (''Found sample: '' @ ?sp) w)))"
      using Cons.prems by (simp add: Let_def)
    from Cons.IH [OF this] True show ?thesis by auto
  next
    case False
    then have "p \<in> set (fst (spades_scan_r1 directory input_dir rest samples
                  (logger WARNING (''Missing R2 file for '' @ r1_file @ '': '' @ ?r2) w)))"
      using Cons.prems by (simp add: Let_def)
    from Cons.IH [OF this] show ?thesis by auto
  qed
qed

lemma spades_scan_dirs_member:
  "spades_scan_dirs self ds samples w = (Inr res, w') \<Longrightarrow> p \<in> set res \<Longrightarrow>
   p \<in> set samples \<or>
   (\<exists>directory r1_file files.
      os_listdir (fs w) (os_path_join (os_path_join (base_input_dir self) directory) ''ILLUMINA_DATA'') = Inr files
      \<and> r1_file \<in> set files \<and> endswith r1_file ''R1_trimmed.fastq.gz''
      \<and> os_path_exists (fs w)
          (os_path_join (os_path_join (os_path_join (base_input_dir self) directory) ''ILLUMINA_DATA'')
             (replace r1_file ''_R1_trimmed.fastq.gz'' ''_R2_trimmed.fastq.gz''))
      \<and> p = os_path_join (os_path_join directory ''ILLUMINA_DATA'')
              (replace r1_file ''_R1_trimmed.fastq.gz'' []))"
proof (induction ds arbitrary: samples w)
  case Nil
  then show ?case by simp
next
  case (Cons directory rest)
  let ?d = "os_path_join (os_path_join (base_input_dir self) directory) ''ILLUMINA_DATA''"
  show ?case
  proof (cases "os_path_exists (fs w) ?d")
    case False
    then have "spades_scan_dirs self rest samples
                 (logger WARNING (''ILLUMINA_DATA directory not found: '' @ ?d) w) = (Inr res, w')"
      using Cons.prems(1) by (simp add: Let_def)
    from Cons.IH [OF this Cons.prems(2)] show ?thesis by simp
  next
    case True
    then obtain files where li: "os_listdir (fs w) ?d = Inr files"
      using Cons.prems(1) by (cases "os_listdir (fs w) ?d") (simp_all add: Let_def)
    let ?r1s = "filter (\<lambda>f. endswith f ''R1_trimmed.fastq.gz'') files"
    obtain samples1 w1 where sc: "spades_scan_r1 directory ?d ?r1s samples w = (samples1, w1)"
      by (cases "spades_scan_r1 directory ?d ?r1s samples w")
    have f1: "fs w1 = fs w"
      using spades_scan_r1_fs [of directory ?d ?r1s samples w] sc by simp
    have "spades_scan_dirs self rest samples1 w1 = (Inr res, w')"
      using Cons.prems(1) True li sc by (simp add: Let_def)
    from Cons.IH [OF this Cons.prems(2)]
    have "p \<in> set samples1 \<or>
      (\<exists>directory r1_file files.
        os_listdir (fs w) (os_path_join (os_path_join (base_input_dir self) directory) ''ILLUMINA_DATA'') = Inr files
        \<and> r1_file \<in> set files \<and> endswith r1_file ''R1_trimmed.fastq.gz''
        \<and> os_path_exists (fs w)
            (os_path_join (os_path_join (os_path_join (base_input_dir self) directory) ''ILLUMINA_DATA'')
               (replace r1_file ''_R1_trimmed.fastq.gz'' ''_R2_trimmed.fastq.gz''))
        \<and> p = os_path_join (os_path_join directory ''ILLUMINA_DATA'')
                (replace r1_file ''_R1_trimmed.fastq.gz'' []))"
      using f1 by simp
    moreover have "p \<in> set samples1 \<Longrightarrow>
      p \<in> set samples \<or>
      (\<exists>r1_file \<in> set ?r1s.
        os_path_exists (fs w) (os_path_join ?d (replace r1_file ''_R1_trimmed.fastq.gz'' ''_R2_trimmed.fastq.gz''))
        \<and> p = os_path_join (os_path_join directory ''ILLUMINA_DATA'')
                (replace r1_file ''_R1_trimmed.fastq.gz'' []))"
      using spades_scan_r1_member [of p directory ?d ?r1s samples w] sc by simp
    ultimately show ?thesis using li by fastforce
  qed
qed

lemma spades_get_samples_member:
  assumes "spades_get_samples self w = (Inr samples, w')" and "p \<in> set samples"
  shows "\<exists>directory r1_file files.
      os_listdir (fs w) (os_path_join (os_path_join (base_input_dir self) directory) ''ILLUMINA_DATA'') = Inr files
      \<and> r1_file \<in> set files \<and> endswith r1_file ''R1_trimmed.fastq.gz''
      \<and> os_path_exists (fs w)
          (os_path_join (os_path_join (os_path_join (base_input_dir self) directory) ''ILLUMINA_DATA'')
             (replace r1_file ''_R1_trimmed.fastq.gz'' ''_R2_trimmed.fastq.gz''))
      \<and> p = os_path_join (os_path_join directory ''ILLUMINA_DATA'')
              (replace r1_file ''_R1_trimmed.fastq.gz'' [])"
proof -
  have ex: "os_path_exists (fs w) (base_input_dir self)"
    using assms by (auto simp add: spades_get_samples_def split: if_splits)
  then obtain entries where li: "os_listdir (fs w) (base_input_dir self) = Inr entries"
    using assms(1) by (cases "os_listdir (fs w) (base_input_dir self)") (simp_all add: spades_get_samples_def)
  let ?ds = "filter (\<lambda>d. os_path_isdir (fs w) (os_path_join (base_input_dir self) d)) entries"
  obtain w1 where sc: "spades_scan_dirs self ?ds [] w = (Inr samples, w1)"
    using assms(1) ex li by (auto simp add: spades_get_samples_def Let_def split: prod.splits sum.splits)
  from spades_scan_dirs_member [OF sc assms(2)] show ?thesis by simp
qed

lemma decompress_one_spawned:
  "spawned (snd (decompress_one E label gz out w)) = spawned w"
  by (simp add: decompress_one_def Let_def split: sum.splits option.splits)

lemma decompress_fastq_spawned:
  "spawned (snd (decompress_fastq E sp p w)) = spawned w"
proof -
  let ?w = "logger INFO (''Decompressing FASTQ files for: '' @ p) w"
  let ?g1 = "os_path_join (base_input_dir sp) (p @ ''_R1_trimmed.fastq.gz'')"
  let ?g2 = "os_path_join (base_input_dir sp) (p @ ''_R2_trimmed.fastq.gz'')"
  let ?q1 = "os_path_join (base_input_dir sp) (p @ ''_R1_trimmed.fastq'')"
  let ?q2 = "os_path_join (base_input_dir sp) (p @ ''_R2_trimmed.fastq'')"
  obtain r1 w1 where d1: "decompress_one E ''R1'' ?g1 ?q1 ?w = (r1, w1)"
    by (cases "decompress_one E ''R1'' ?g1 ?q1 ?w")
  obtain r2 w2 where d2: "decompress_one E ''R2'' ?g2 ?q2 w1 = (r2, w2)"
    by (cases "decompress_one E ''R2'' ?g2 ?q2 w1")
  have s1: "spawned w1 = spawned w"
    using decompress_one_spawned [of E "''R1''" ?g1 ?q1 ?w] d1 by simp
  have s2: "spawned w2 = spawned w1"
    using decompress_one_spawned [of E "''R2''" ?g2 ?q2 w1] d2 by simp
  show ?thesis
    using d1 d2 s1 s2 by (simp add: decompress_fastq_def Let_def split: sum.splits)
qed

lemma run_spades_spawned:
  "spawned (snd (run_spades E sp p r1 r2 w)) =
     spawned w @ [(spades_cmd sp (spades_assembly_dir sp p) r1 r2, fs w)]"
  by (simp add: run_spades_def subprocess_run_def Let_def
           split: prod.splits proc_result.splits sum.splits exn.splits)

lemma spades_process_sample_spawned:
  "\<exists>new. spawned (snd (spades_process_sample E sp p c w)) = spawned w @ new
     \<and> (\<forall>x \<in> set new. fst x = spades_cmd sp (spades_assembly_dir sp p)
            (os_path_join (base_input_dir sp) (p @ ''_R1_trimmed.fastq''))
            (os_path_join (base_input_dir sp) (p @ ''_R2_trimmed.fastq'')))"
proof -
  let ?w = "logger INFO (''Processing sample: '' @ p) w"
  obtain r w1 where d: "decompress_fastq E sp p ?w = (r, w1)"
    by (cases "decompress_fastq E sp p ?w")
  have s1: "spawned w1 = spawned w"
    using decompress_fastq_spawned [of E sp p ?w] d by simp
  show ?thesis
  proof (cases r)
    case (Inl e)
    then have "spawned (snd (spades_process_sample E sp p c w)) = spawned w @ []"
      using d s1 by (simp add: spades_process_sample_def)
    then show ?thesis by (intro exI [of _ "[]"]) simp
  next
    case (Inr pr)
    obtain a b where pr: "pr = (a, b)" by (cases pr)
    have ab: "a = os_path_join (base_input_dir sp) (p @ ''_R1_trimmed.fastq'')
            \<and> b = os_path_join (base_input_dir sp) (p @ ''_R2_trimmed.fastq'')"
      using decompress_fastq_paths [of E sp p ?w a b] d Inr pr by simp
    obtain r' w2 where rs: "run_spades E sp p a b w1 = (r', w2)"
      by (cases "run_spades E sp p a b w1")
    have s2: "spawned w2 = spawned w1 @ [(spades_cmd sp (spades_assembly_dir sp p) a b, fs w1)]"
      using run_spades_spawned [of E sp p a b w1] rs by simp
    have "spawned (snd (spades_process_sample E sp p c w)) = spawned w2"
      using d Inr pr rs by (simp add: spades_process_sample_def split: sum.splits bool.splits)
    then have "spawned (snd (spades_process_sample E sp p c w))
                 = spawned w @ [(spades_cmd sp (spades_assembly_dir sp p) a b, fs w1)]"
      using s1 s2 by simp
    then show ?thesis using ab by (intro exI [of _ "[(spades_cmd sp (spades_assembly_dir sp p) a b, fs w1)]"]) simp
  qed
qed

lemma spades_process_samples_spawned:
  "\<exists>new. spawned (snd (spades_process_samples E sp ps c w)) = spawned w @ new
     \<and> (\<forall>x \<in> set new. \<exists>q \<in> set ps. fst x = spades_cmd sp (spades_assembly_dir sp q)
            (os_path_join (base_input_dir sp) (q @ ''_R1_trimmed.fastq''))
            (os_path_join (base_input_dir sp) (q @ ''_R2_trimmed.fastq'')))"
proof (induction ps arbitrary: c w)
  case Nil
  show ?case by simp
next
  case (Cons p rest)
  obtain c1 w1 where st: "spades_process_sample E sp p c w = (c1, w1)"
    by (cases "spades_process_sample E sp p c w")
  obtain new1 where n1: "spawned w1 = spawned w @ new1"
    and m1: "\<forall>x \<in> set new1. fst x = spades_cmd sp (spades_assembly_dir sp p)
            (os_path_join (base_input_dir sp) (p @ ''_R1_trimmed.fastq''))
            (os_path_join (base_input_dir sp) (p @ ''_R2_trimmed.fastq''))"
    using spades_process_sample_spawned [of E sp p c w] st by auto
  obtain new2 where n2: "spawned (snd (spades_process_samples E sp rest c1 w1)) = spawned w1 @ new2"
    and m2: "\<forall>x \<in> set new2. \<exists>q \<in> set rest. fst x = spades_cmd sp (spades_assembly_dir sp q)
            (os_path_join (base_input_dir sp) (q @ ''_R1_trimmed.fastq''))
            (os_path_join (base_input_dir sp) (q @ ''_R2_trimmed.fastq''))"
    using Cons.IH [of c1 w1] by auto
  have "spawned (snd (spades_process_samples E sp (p # rest) c w)) = spawned w @ (new1 @ new2)"
    using st n1 n2 by simp
  moreover have "\<forall>x \<in> set (new1 @ new2). \<exists>q \<in> set (p # rest). fst x = spades_cmd sp (spades_assembly_dir sp q)
            (os_path_join (base_input_dir sp) (q @ ''_R1_trimmed.fastq''))
            (os_path_join (base_input_dir sp) (q @ ''_R2_trimmed.fastq''))"
    using m1 m2 by auto
  ultimately show ?case by blast
qed

lemma get_fastq_files_no_reverse:
  assumes "os_path_exists (fs w) (os_path_join (os_path_join (os_path_join (base_path sn) strain) sample) ''ILLUMINA_DATA'')"
    and "os_listdir (fs w) (os_path_join (os_path_join (os_path_join (base_path sn) strain) sample) ''ILLUMINA_DATA'') = Inr files"
    and "\<forall>f \<in> set files. \<not> endswith f ''R2_trimmed.fastq''"
  shows "get_fastq_files sn strain sample w
           = (Inl (FileNotFoundError (''No matching FASTQ files found for: '' @ strain @ ''/'' @ sample)), w)"
proof -
  have "filter (\<lambda>f. \<not> endswith f ''R1_trimmed.fastq'' \<and> endswith f ''R2_trimmed.fastq'') files = []"
    using assms(3) by (simp add: filter_empty_conv)
  then show ?thesis
    using assms(1,2) by (simp add: get_fastq_files_def Let_def)
qed

text \<open>
  Claim C2, as the code has it. SPAdes: \<open>get_samples\<close> returns a sample only for a
  forward-read file whose reverse-read path, obtained by replacing \<open>_R1_trimmed.fastq.gz\<close>
  by \<open>_R2_trimmed.fastq.gz\<close> in its name, exists; a forward-read file whose reverse-read
  path does not exist adds a warning and no sample; and the per-sample loop starts the
  assembler for samples of the list only. Snippy: \<open>get_samples\<close> does not look at the read
  files, so the sample is in the list, but when its turn comes and its directory holds
  no reverse-read file the sample is counted as failed with an error line and no
  subprocess is started.
\<close>

theorem missing_reverse_file_never_invoked:
  "(spades_get_samples sp w = (Inr samples, w') \<and> p \<in> set samples
    \<longrightarrow> (\<exists>directory r1_file files.
          os_listdir (fs w) (os_path_join (os_path_join (base_input_dir sp) directory) ''ILLUMINA_DATA'') = Inr files
          \<and> r1_file \<in> set files \<and> endswith r1_file ''R1_trimmed.fastq.gz''
          \<and> os_path_exists (fs w)
              (os_path_join (os_path_join (os_path_join (base_input_dir sp) directory) ''ILLUMINA_DATA'')
                 (replace r1_file ''_R1_trimmed.fastq.gz'' ''_R2_trimmed.fastq.gz''))
          \<and> p = os_path_join (os_path_join directory ''ILLUMINA_DATA'')
                  (replace r1_file ''_R1_trimmed.fastq.gz'' [])))
   \<and> (\<not> os_path_exists (fs v)
          (os_path_join input_dir (replace fwd ''_R1_trimmed.fastq.gz'' ''_R2_trimmed.fastq.gz''))
    \<longrightarrow> spades_scan_r1 dir input_dir (fwd # rest) acc v =
          spades_scan_r1 dir input_dir rest acc
            (logger WARNING (''Missing R2 file for '' @ fwd @ '': ''
                @ os_path_join input_dir (replace fwd ''_R1_trimmed.fastq.gz'' ''_R2_trimmed.fastq.gz'')) v))
   \<and> (\<exists>new. spawned (snd (spades_process_samples E sp ps c u)) = spawned u @ new
         \<and> (\<forall>x \<in> set new. \<exists>q \<in> set ps. fst x = spades_cmd sp (spades_assembly_dir sp q)
                (os_path_join (base_input_dir sp) (q @ ''_R1_trimmed.fastq''))
                (os_path_join (base_input_dir sp) (q @ ''_R2_trimmed.fastq''))))
   \<and> (os_path_exists (fs t) (os_path_join (os_path_join (os_path_join (base_path sn) strain) sample) ''ILLUMINA_DATA'')
      \<and> os_listdir (fs t) (os_path_join (os_path_join (os_path_join (base_path sn) strain) sample) ''ILLUMINA_DATA'')
          = Inr entries
      \<and> (\<forall>f \<in> set entries. \<not> endswith f ''R2_trimmed.fastq'')
    \<longrightarrow> snippy_process_sample E sn (strain, sample) k t =
          ((fst k, snd k + 1),
           logger ERROR (''Failed to process sample '' @ strain @ ''/'' @ sample @ '': ''
               @ ''No matching FASTQ files found for: '' @ strain @ ''/'' @ sample) t)
        \<and> spawned (snd (snippy_process_sample E sn (strain, sample) k t)) = spawned t)"
proof (intro conjI impI)
  assume "spades_get_samples sp w = (Inr samples, w') \<and> p \<in> set samples"
  then show "\<exists>directory r1_file files.
          os_listdir (fs w) (os_path_join (os_path_join (base_input_dir sp) directory) ''ILLUMINA_DATA'') = Inr files
          \<and> r1_file \<in> set files \<and> endswith r1_file ''R1_trimmed.fastq.gz''
          \<and> os_path_exists (fs w)
              (os_path_join (os_path_join (os_path_join (base_input_dir sp) directory) ''ILLUMINA_DATA'')
                 (replace r1_file ''_R1_trimmed.fastq.gz'' ''_R2_trimmed.fastq.gz''))
          \<and> p = os_path_join (os_path_join directory ''ILLUMINA_DATA'')
                  (replace r1_file ''_R1_trimmed.fastq.gz'' [])"
    using spades_get_samples_member [of sp w samples w' p] by blast
next
  assume "\<not> os_path_exists (fs v)
          (os_path_join input_dir (replace fwd ''_R1_trimmed.fastq.gz'' ''_R2_trimmed.fastq.gz''))"
  then show "spades_scan_r1 dir input_dir (fwd # rest) acc v =
          spades_scan_r1 dir input_dir rest acc
            (logger WARNING (''Missing R2 file for '' @ fwd @ '': ''
                @ os_path_join input_dir (replace fwd ''_R1_trimmed.fastq.gz'' ''_R2_trimmed.fastq.gz'')) v)"
    by (simp add: Let_def)
next
  show "\<exists>new. spawned (snd (spades_process_samples E sp ps c u)) = spawned u @ new
         \<and> (\<forall>x \<in> set new. \<exists>q \<in> set ps. fst x = spades_cmd sp (spades_assembly_dir sp q)
                (os_path_join (base_input_dir sp) (q @ ''_R1_trimmed.fastq''))
                (os_path_join (base_input_dir sp) (q @ ''_R2_trimmed.fastq'')))"
    by (rule spades_process_samples_spawned)
next
  assume a: "os_path_exists (fs t) (os_path_join (os_path_join (os_path_join (base_path sn) strain) sample) ''ILLUMINA_DATA'')
      \<and> os_listdir (fs t) (os_path_join (os_path_join (os_path_join (base_path sn) strain) sample) ''ILLUMINA_DATA'')
          = Inr entries
      \<and> (\<forall>f \<in> set entries. \<not> endswith f ''R2_trimmed.fastq'')"
  have g: "get_fastq_files sn strain sample t
           = (Inl (FileNotFoundError (''No matching FASTQ files found for: '' @ strain @ ''/'' @ sample)), t)"
    using a get_fastq_files_no_reverse [of t sn strain sample entries] by blast
  show s: "snippy_process_sample E sn (strain, sample) k t =
          ((fst k, snd k + 1),
           logger ERROR (''Failed to process sample '' @ strain @ ''/'' @ sample @ '': ''
               @ ''No matching FASTQ files found for: '' @ strain @ ''/'' @ sample) t)"
    using g by (simp add: snippy_process_sample_def)
  show "spawned (snd (snippy_process_sample E sn (strain, sample) k t)) = spawned t"
    by (simp add: s)
qed

theorem missing_reverse_file_never_invoked_witness:
  "(\<exists>directory r1_file files.
      os_listdir (fs ex_world) (os_path_join (os_path_join (base_input_dir ex_spades) directory) ''ILLUMINA_DATA'') = Inr files
      \<and> r1_file \<in> set files \<and> endswith r1_file ''R1_trimmed.fastq.gz''
      \<and> os_path_exists (fs ex_world)
          (os_path_join (os_path_join (os_path_join (base_input_dir ex_spades) directory) ''ILLUMINA_DATA'')
             (replace r1_file ''_R1_trimmed.fastq.gz'' ''_R2_trimmed.fastq.gz''))
      \<and> ''X/ILLUMINA_DATA/X'' = os_path_join (os_path_join directory ''ILLUMINA_DATA'')
              (replace r1_file ''_R1_trimmed.fastq.gz'' []))
   \<and> spades_scan_r1 ''X'' ''gz/X/ILLUMINA_DATA'' [''Y_R1_trimmed.fastq.gz''] [] ex_world
       = ([], logger WARNING ''Missing R2 file for Y_R1_trimmed.fastq.gz: gz/X/ILLUMINA_DATA/Y_R2_trimmed.fastq.gz'' ex_world)
   \<and> snippy_process_sample ex_env ex_snippy (''Staphylococcusaureus'', ''MCR_CVU_2'') (0, 0) ex_world
       = ((0, 1),
          logger ERROR ''Failed to process sample Staphylococcusaureus/MCR_CVU_2: No matching FASTQ files found for: Staphylococcusaureus/MCR_CVU_2'' ex_world)
   \<and> spawned (snd (snippy_process_sample ex_env ex_snippy (''Staphylococcusaureus'', ''MCR_CVU_2'') (0, 0) ex_world)) = []"
proof -
  let ?d2 = "os_path_join (os_path_join (os_path_join (base_path ex_snippy) ''Staphylococcusaureus'') ''MCR_CVU_2'') ''ILLUMINA_DATA''"
  have a: "fst (spades_get_samples ex_spades ex_world) = Inr [''X/ILLUMINA_DATA/X'']"
    by code_simp
  then have a': "spades_get_samples ex_spades ex_world
                   = (Inr [''X/ILLUMINA_DATA/X''], snd (spades_get_samples ex_spades ex_world))
                 \<and> ''X/ILLUMINA_DATA/X'' \<in> set [''X/ILLUMINA_DATA/X'']"
    by (simp add: prod_eq_iff)
  note p1 = missing_reverse_file_never_invoked [where sp = ex_spades and w = ex_world
      and samples = "[''X/ILLUMINA_DATA/X'']" and w' = "snd (spades_get_samples ex_spades ex_world)"
      and p = "''X/ILLUMINA_DATA/X''", THEN conjunct1, THEN mp, OF a']
  have b: "\<not> os_path_exists (fs ex_world)
          (os_path_join ''gz/X/ILLUMINA_DATA'' (replace ''Y_R1_trimmed.fastq.gz'' ''_R1_trimmed.fastq.gz'' ''_R2_trimmed.fastq.gz''))"
    by code_simp
  have b': "os_path_join ''gz/X/ILLUMINA_DATA'' (replace ''Y_R1_trimmed.fastq.gz'' ''_R1_trimmed.fastq.gz'' ''_R2_trimmed.fastq.gz'')
              = ''gz/X/ILLUMINA_DATA/Y_R2_trimmed.fastq.gz''"
    by code_simp
  have p2: "spades_scan_r1 ''X'' ''gz/X/ILLUMINA_DATA'' [''Y_R1_trimmed.fastq.gz''] [] ex_world
       = ([], logger WARNING ''Missing R2 file for Y_R1_trimmed.fastq.gz: gz/X/ILLUMINA_DATA/Y_R2_trimmed.fastq.gz'' ex_world)"
    using missing_reverse_file_never_invoked [where v = ex_world and input_dir = "''gz/X/ILLUMINA_DATA''"
        and fwd = "''Y_R1_trimmed.fastq.gz''" and dir = "''X''" and rest = "[]" and acc = "[]",
        THEN conjunct2, THEN conjunct1, THEN mp, OF b]
    by (simp add: b')
  have c: "os_path_exists (fs ex_world) ?d2 \<and> os_listdir (fs ex_world) ?d2 = Inr [''c_R1_trimmed.fastq'']
      \<and> (\<forall>f \<in> set [''c_R1_trimmed.fastq'']. \<not> endswith f ''R2_trimmed.fastq'')"
    by code_simp
  note p3 = missing_reverse_file_never_invoked [where t = ex_world and sn = ex_snippy
      and strain = "''Staphylococcusaureus''" and sample = "''MCR_CVU_2''" and entries = "[''c_R1_trimmed.fastq'']"
      and E = ex_env and k = "(0, 0)",
      THEN conjunct2, THEN conjunct2, THEN conjunct2, THEN mp, OF c]
  have s: "spawned ex_world = []"
    by (simp add: ex_world_def)
  show ?thesis
    using p1 p2 p3 s by (intro conjI) simp_all
qed

text \<open>
  Claim C2 as stated fails for the Snippy driver: the directory of sample \<open>MCR_CVU_2\<close>
  of the concrete run holds a forward-read file and no reverse-read file, and
  \<open>get_samples\<close> returns the sample all the same.
\<close>

theorem snippy_sample_without_reverse_file_discovered:
  "os_listdir (fs ex_world) ''reads/Staphylococcusaureus/MCR_CVU_2/ILLUMINA_DATA'' = Inr [''c_R1_trimmed.fastq'']
   \<and> fst (snippy_get_samples ex_snippy ex_world)
       = Inr [(''Staphylococcusaureus'', ''MCR_CVU_1''), (''Staphylococcusaureus'', ''MCR_CVU_2'')]"
proof (intro conjI)
  show "os_listdir (fs ex_world) ''reads/Staphylococcusaureus/MCR_CVU_2/ILLUMINA_DATA'' = Inr [''c_R1_trimmed.fastq'']"
    by code_simp
  show "fst (snippy_get_samples ex_snippy ex_world)
       = Inr [(''Staphylococcusaureus'', ''MCR_CVU_1''), (''Staphylococcusaureus'', ''MCR_CVU_2'')]"
    by code_simp
qed

section \<open>The output directory of a sample\<close>

lemma fs_lookup_append:
  "fs_lookup F k = Some v \<Longrightarrow> fs_lookup (F @ G) k = Some v"
  by (auto simp add: fs_lookup_def map_of_append map_add_Some_iff split: if_splits)

lemma fs_lookup_new:
  "fs_lookup F k = None \<Longrightarrow> fs_lookup (F @ [(k, v)]) k = Some v"
  by (auto simp add: fs_lookup_def map_of_append map_add_Some_iff split: if_splits)

lemma mk_keeps:
  "mk F cur cs = Inr F' \<Longrightarrow> fs_lookup F k = Some v \<Longrightarrow> fs_lookup F' k = Some v"
proof (induction cs arbitrary: F cur)
  case Nil
  then show ?case by (simp split: if_splits)
next
  case (Cons c cs)
  have d: "fs_lookup F cur = Some Dir"
    using Cons.prems(1) by (simp split: if_splits)
  show ?case
  proof (cases "c = [] \<or> c = ''.''")
    case True
    then have "mk F cur cs = Inr F'" using Cons.prems(1) d by auto
    from Cons.IH [OF this Cons.prems(2)] show ?thesis .
  next
    case False
    note nd = this
    show ?thesis
    proof (cases "c = ''..''")
      case True
      then have "mk F (butlast cur) cs = Inr F'" using Cons.prems(1) d nd by simp
      from Cons.IH [OF this Cons.prems(2)] show ?thesis .
    next
      case False
      show ?thesis
      proof (cases "fs_lookup F (cur @ [c])")
        case None
        then have m: "mk (F @ [(cur @ [c], Dir)]) (cur @ [c]) cs = Inr F'"
          using Cons.prems(1) d nd False by simp
        have "fs_lookup (F @ [(cur @ [c], Dir)]) k = Some v"
          using Cons.prems(2) by (rule fs_lookup_append)
        from Cons.IH [OF m this] show ?thesis .
      next
        case (Some n)
        then have "mk F (cur @ [c]) cs = Inr F'"
          using Cons.prems(1) d nd False by simp
        from Cons.IH [OF this Cons.prems(2)] show ?thesis .
      qed
    qed
  qed
qed

lemma mk_walk:
  "mk F cur cs = Inr F' \<Longrightarrow> \<exists>k. walk F' cur cs = Inr k \<and> fs_lookup F' k = Some Dir"
proof (induction cs arbitrary: F cur)
  case Nil
  then show ?case by (simp split: if_splits)
next
  case (Cons c cs)
  have d: "fs_lookup F cur = Some Dir"
    using Cons.prems by (simp split: if_splits)
  have d': "fs_lookup F' cur = Some Dir"
    using mk_keeps [OF Cons.prems d] .
  show ?case
  proof (cases "c = [] \<or> c = ''.''")
    case True
    then have "mk F cur cs = Inr F'" using Cons.prems d by auto
    from Cons.IH [OF this] show ?thesis using True d' by auto
  next
    case False
    note nd = this
    show ?thesis
    proof (cases "c = ''..''")
      case True
      then have "mk F (butlast cur) cs = Inr F'" using Cons.prems d nd by simp
      from Cons.IH [OF this] show ?thesis using True d' by simp
    next
      case False
      show ?thesis
      proof (cases "fs_lookup F (cur @ [c])")
        case None
        then have m: "mk (F @ [(cur @ [c], Dir)]) (cur @ [c]) cs = Inr F'"
          using Cons.prems d nd False by simp
        have "fs_lookup (F @ [(cur @ [c], Dir)]) (cur @ [c]) = Some Dir"
          using None by (rule fs_lookup_new)
        then have "fs_lookup F' (cur @ [c]) = Some Dir"
          using mk_keeps [OF m] by simp
        then show ?thesis using Cons.IH [OF m] nd False d' by simp
      next
        case (Some n)
        then have m: "mk F (cur @ [c]) cs = Inr F'"
          using Cons.prems d nd False by simp
        have "fs_lookup F' (cur @ [c]) = Some n"
          using mk_keeps [OF m Some] .
        then show ?thesis using Cons.IH [OF m] nd False d' by simp
      qed
    qed
  qed
qed

lemma os_makedirs_isdir:
  "os_makedirs F p = Inr F' \<Longrightarrow> os_path_isdir F' p"
proof -
  assume a: "os_makedirs F p = Inr F'"
  then have p: "p \<noteq> []" and m: "mk F [] (split_sep p) = Inr F'"
    by (auto simp add: os_makedirs_def split: if_splits sum.splits)
  from mk_walk [OF m] obtain k where "walk F' [] (split_sep p) = Inr k" and "fs_lookup F' k = Some Dir"
    by blast
  then show ?thesis using p by (simp add: os_path_isdir_def resolve_def)
qed

text \<open>
  The Snippy half of claim C8: \<open>run_snippy\<close> starts at most one subprocess, with the
  output directory \<open>output_base_dir/strain/sample_mysnps\<close> in its arguments, and in the
  file system in which the subprocess starts that directory exists.
\<close>

lemma snippy_output_dir_exists_at_invocation:
  "spawned (snd (run_snippy E sn strain sample R1 R2 w)) = spawned w
   \<or> (\<exists>F'. spawned (snd (run_snippy E sn strain sample R1 R2 w))
             = spawned w @ [(snippy_cmd sn (snippy_output_dir sn strain sample) R1 R2, F')]
          \<and> os_path_isdir F' (snippy_output_dir sn strain sample))"
proof (cases "os_makedirs (fs w) (snippy_output_dir sn strain sample)")
  case (Inl e)
  then show ?thesis by (simp add: run_snippy_def Let_def)
next
  case (Inr F')
  have "os_path_isdir F' (snippy_output_dir sn strain sample)"
    using os_makedirs_isdir [OF Inr] .
  moreover have "spawned (snd (run_snippy E sn strain sample R1 R2 w))
             = spawned w @ [(snippy_cmd sn (snippy_output_dir sn strain sample) R1 R2, F')]"
    using Inr by (simp add: run_snippy_def subprocess_run_def Let_def
                       split: prod.splits proc_result.splits sum.splits exn.splits)
  ultimately show ?thesis by blast
qed

text \<open>
  Claim C8 on the SPAdes driver, at the sample of the concrete run. The run starts the
  version probe and then the assembler with \<open>-o out/X_assembly\<close>, and in the file
  system in which the assembler starts the directory \<open>out/X_assembly\<close> does not exist:
  \<open>run_spades\<close> builds the path and does not create the directory.
\<close>

theorem spades_output_dir_absent_at_invocation:
  "spawned (snd (run_assembly ex_env ex_spades ex_world))
     = [([''spades.py'', ''--version''], ex_fs),
        ([''spades.py'', ''--threads'', ''16'', ''-o'', ''out/X_assembly'',
          ''-1'', ''gz/X/ILLUMINA_DATA/X_R1_trimmed.fastq'', ''-2'', ''gz/X/ILLUMINA_DATA/X_R2_trimmed.fastq''],
         ex_fs @ [([''gz'', ''X'', ''ILLUMINA_DATA'', ''X_R1_trimmed.fastq''], File ''x1''),
                  ([''gz'', ''X'', ''ILLUMINA_DATA'', ''X_R2_trimmed.fastq''], File ''x2'')])]
   \<and> spades_assembly_dir ex_spades ''X/ILLUMINA_DATA/X'' = ''out/X_assembly''
   \<and> \<not> os_path_exists
         (ex_fs @ [([''gz'', ''X'', ''ILLUMINA_DATA'', ''X_R1_trimmed.fastq''], File ''x1''),
                  ([''gz'', ''X'', ''ILLUMINA_DATA'', ''X_R2_trimmed.fastq''], File ''x2'')])
         ''out/X_assembly''
   \<and> os_path_isdir
         (ex_fs @ [([''gz'', ''X'', ''ILLUMINA_DATA'', ''X_R1_trimmed.fastq''], File ''x1''),
                  ([''gz'', ''X'', ''ILLUMINA_DATA'', ''X_R2_trimmed.fastq''], File ''x2'')])
         ''out''"
proof (intro conjI)
  show "spawned (snd (run_assembly ex_env ex_spades ex_world))
     = [([''spades.py'', ''--version''], ex_fs),
        ([''spades.py'', ''--threads'', ''16'', ''-o'', ''out/X_assembly'',
          ''-1'', ''gz/X/ILLUMINA_DATA/X_R1_trimmed.fastq'', ''-2'', ''gz/X/ILLUMINA_DATA/X_R2_trimmed.fastq''],
         ex_fs @ [([''gz'', ''X'', ''ILLUMINA_DATA'', ''X_R1_trimmed.fastq''], File ''x1''),
                  ([''gz'', ''X'', ''ILLUMINA_DATA'', ''X_R2_trimmed.fastq''], File ''x2'')])]"
    by code_simp
  show "spades_assembly_dir ex_spades ''X/ILLUMINA_DATA/X'' = ''out/X_assembly''"
    by code_simp
  show "\<not> os_path_exists
         (ex_fs @ [([''gz'', ''X'', ''ILLUMINA_DATA'', ''X_R1_trimmed.fastq''], File ''x1''),
                  ([''gz'', ''X'', ''ILLUMINA_DATA'', ''X_R2_trimmed.fastq''], File ''x2'')])
         ''out/X_assembly''"
    by code_simp
  show "os_path_isdir
         (ex_fs @ [([''gz'', ''X'', ''ILLUMINA_DATA'', ''X_R1_trimmed.fastq''], File ''x1''),
                  ([''gz'', ''X'', ''ILLUMINA_DATA'', ''X_R2_trimmed.fastq''], File ''x2'')])
         ''out''"
    by code_simp
qed

end
